theory Spec2Isabelle
  imports Complex_Main
begin

section \<open>Floating-point values\<close>

text \<open>
  The program keeps the Fahrenheit bounds and the Fahrenheit reading in C++ \<^verbatim>\<open>float\<close>
  variables and converts between the units through \<^verbatim>\<open>double\<close> arithmetic
  (the literal \<^verbatim>\<open>1.8\<close> is a double). A finite IEEE-754 number is a rational, so a
  float or double value is modelled by the rational it denotes, and every operation
  that rounds is followed by \<open>fround p\<close>: rounding to the nearest number with a
  \<open>p\<close>-bit significand, ties to the even significand (\<open>p = 24\<close> for float,
  \<open>p = 53\<close> for double). The exponent range is not modelled: every value the
  program computes from a keypad entry of at most nine digits lies well inside the
  normal range of both formats, where this is what round-to-nearest-even does.
\<close>

type_synonym float32 = rat
type_synonym double = rat

text \<open>The number of binary digits of a natural number.\<close>

fun bitlen :: "nat \<Rightarrow> nat" where
  "bitlen n = (if n = 0 then 0 else Suc (bitlen (n div 2)))"

declare bitlen.simps [simp del]

text \<open>\<open>ilog2 x\<close> is the integer \<open>e\<close> with \<open>2 ^ e \<le> x < 2 ^ (e + 1)\<close>, for \<open>x > 0\<close>.\<close>

definition ilog2 :: "rat \<Rightarrow> int" where
  "ilog2 x = (if 1 \<le> x then int (bitlen (nat \<lfloor>x\<rfloor>)) - 1
              else - int (bitlen (nat (\<lceil>1 / x\<rceil> - 1))))"

definition pow2 :: "int \<Rightarrow> rat" where
  "pow2 e = (if 0 \<le> e then 2 ^ nat e else 1 / 2 ^ nat (- e))"

definition round_even :: "rat \<Rightarrow> int" where
  "round_even x = (let f = \<lfloor>x\<rfloor>; d = x - of_int f in
     if d < 1 / 2 then f else if 1 / 2 < d then f + 1 else if even f then f else f + 1)"

definition fround :: "nat \<Rightarrow> rat \<Rightarrow> rat" where
  "fround p x = (if x = 0 then 0 else
     let e = ilog2 \<bar>x\<bar> - (int p - 1) in of_int (round_even (x / pow2 e)) * pow2 e)"

text \<open>The double literal \<^verbatim>\<open>1.8\<close>, the conversion of an \<^verbatim>\<open>int\<close> to float, and the
  conversion of a double to \<^verbatim>\<open>int\<close>, which truncates towards zero.\<close>

definition d1_8 :: double where
  "d1_8 = fround 53 (9 / 5)"

definition float_of_int :: "int \<Rightarrow> float32" where
  "float_of_int n = fround 24 (of_int n)"

definition trunc :: "rat \<Rightarrow> int" where
  "trunc x = (if 0 \<le> x then \<lfloor>x\<rfloor> else \<lceil>x\<rceil>)"

section \<open>Tools for conversion\<close>

text \<open>
  \<^verbatim>\<open>float toFahrenheit(int celcius) { return celcius * 1.8 + 32; }\<close>:
  the product and the sum are double operations, the result is converted to float.

  \<^verbatim>\<open>int toCelcius(float fahrenheit) { return (fahrenheit - 32) / 1.8; }\<close>:
  the difference is a float operation (float minus int), the quotient a double
  operation, and the result is truncated to int.
\<close>

definition toFahrenheit :: "int \<Rightarrow> float32" where
  "toFahrenheit c = fround 24 (fround 53 (fround 53 (of_int c * d1_8) + 32))"

definition toCelcius :: "float32 \<Rightarrow> int" where
  "toCelcius f = trunc (fround 53 (fround 24 (f - 32) / d1_8))"

section \<open>Shared state\<close>

text \<open>
  Calls on the collaborators (LCD, sensor, buzzer, LED, GPIO rows, watchdog, event
  queue) and the sleeps of a thread are recorded, in program order, in the log
  \<open>outs\<close>. \<^verbatim>\<open>lcd.print(to_string(n).c_str())\<close> is recorded with the number printed.
\<close>

datatype effect =
    Lcd_clear
  | Lcd_print string
  | Lcd_print_int int
  | Lcd_print_float float32
  | Lcd_setCursor nat nat
  | Sleep nat
  | Buzzer_write nat
  | Led_write nat
  | Queue_call_flash nat
  | Queue_dispatch
  | Sensor_read
  | Odr_clear
  | Odr_set nat
  | Watchdog_kick

text \<open>The global variables of the program, with the names they have there.\<close>

record state =
  row :: int
  celcius :: int
  fahrenheit :: float32
  humidity :: int
  input_stage :: int
  input_len :: int
  input_str :: string
  input_modified :: bool
  temp_min_c :: int
  temp_min_f :: float32
  temp_max_c :: int
  temp_max_f :: float32
  humidity_min :: int
  humidity_max :: int
  unit :: bool
  mode :: int
  outs :: "effect list"

definition BOUNCE :: nat where "BOUNCE = 1000"
definition MAX_INPUT :: int where "MAX_INPUT = 9"
definition TEMP_MIN_C :: int where "TEMP_MIN_C = 0"
definition TEMP_MIN_F :: int where "TEMP_MIN_F = 32"
definition TEMP_MAX_C :: int where "TEMP_MAX_C = 50"
definition TEMP_MAX_F :: int where "TEMP_MAX_F = 122"
definition HUMIDITY_MIN :: int where "HUMIDITY_MIN = 20"
definition HUMIDITY_MAX :: int where "HUMIDITY_MAX = 95"
definition FAHRENHEIT :: bool where "FAHRENHEIT = False"
definition CELCIUS :: bool where "CELCIUS = True"
definition IDLE :: int where "IDLE = 0"
definition INPUT :: int where "INPUT = 1"
definition MONITOR :: int where "MONITOR = 2"
definition ALERT :: int where "ALERT = 3"

definition prompts :: "string list" where
  "prompts = [''Min Temperature?'', ''Max Temperature?'', ''Min Humidity?'', ''Max Humidity?'']"

text \<open>The initialisers of the globals; the three sensor variables have none and
  start at zero.\<close>

definition init_state :: state where
  "init_state = \<lparr> row = - 1, celcius = 0, fahrenheit = 0, humidity = 0,
     input_stage = - 1, input_len = - 1, input_str = [], input_modified = False,
     temp_min_c = TEMP_MIN_C, temp_min_f = of_int TEMP_MIN_F,
     temp_max_c = TEMP_MAX_C, temp_max_f = of_int TEMP_MAX_F,
     humidity_min = HUMIDITY_MIN, humidity_max = HUMIDITY_MAX,
     unit = CELCIUS, mode = IDLE, outs = [] \<rparr>"

definition emit :: "effect list \<Rightarrow> state \<Rightarrow> state" where
  "emit es s = s\<lparr>outs := outs s @ es\<rparr>"

section \<open>ISR - keypad input\<close>

definition isr_c0 :: "state \<Rightarrow> state" where
  "isr_c0 s = emit [Queue_call_flash BOUNCE]
     (if mode s = INPUT \<and> input_len s < MAX_INPUT then
        (let s1 = (if row s = 0 then s\<lparr>input_str := input_str s @ ''1''\<rparr>
                   else if row s = 1 then s\<lparr>input_str := input_str s @ ''4''\<rparr>
                   else if row s = 2 then s\<lparr>input_str := input_str s @ ''7''\<rparr>
                   else s)
         in s1\<lparr>input_len := input_len s1 + 1, input_modified := True\<rparr>)
      else s)"

definition isr_c1 :: "state \<Rightarrow> state" where
  "isr_c1 s = emit [Queue_call_flash BOUNCE]
     (if mode s = INPUT \<and> input_len s < MAX_INPUT then
        (let s1 = (if row s = 0 then s\<lparr>input_str := input_str s @ ''2''\<rparr>
                   else if row s = 1 then s\<lparr>input_str := input_str s @ ''5''\<rparr>
                   else if row s = 2 then s\<lparr>input_str := input_str s @ ''8''\<rparr>
                   else if row s = 3 then s\<lparr>input_str := input_str s @ ''0''\<rparr>
                   else s)
         in s1\<lparr>input_len := input_len s1 + 1, input_modified := True\<rparr>)
      else s)"

definition isr_c2 :: "state \<Rightarrow> state" where
  "isr_c2 s = emit [Queue_call_flash BOUNCE]
     (if mode s = INPUT \<and> input_len s < MAX_INPUT then
        (let s1 = (if row s = 0 then s\<lparr>input_str := input_str s @ ''3''\<rparr>
                   else if row s = 1 then s\<lparr>input_str := input_str s @ ''6''\<rparr>
                   else if row s = 2 then s\<lparr>input_str := input_str s @ ''9''\<rparr>
                   else s)
         in s1\<lparr>input_len := input_len s1 + 1, input_modified := True\<rparr>)
      else s)"

definition isr_c3 :: "state \<Rightarrow> state" where
  "isr_c3 s = emit [Queue_call_flash BOUNCE]
     (if row s = 0 then
        (if input_stage s \<noteq> - 1 then s\<lparr>input_stage := input_stage s + 1\<rparr> else s)
      else if row s = 1 then
        (if mode s \<noteq> INPUT then s\<lparr>mode := IDLE\<rparr> else s)
      else if row s = 2 then
        (if mode s = INPUT
         then s\<lparr>input_str := [], input_len := 0, input_modified := True\<rparr>
         else s\<lparr>unit := \<not> unit s\<rparr>)
      else if row s = 3 then s\<lparr>mode := INPUT\<rparr>
      else s)"

text \<open>
  A column interrupt fires when a key of that column closes the circuit of the row
  the scan loop has energised, so the handler runs with \<open>row\<close> equal to the row of
  the key. A key press is the column of the key and that row.

  Interleaving. A handler runs to its end without interruption. The loops of the
  two threads that wait for a key are interleaved with the handlers at the tests of
  their conditions; the beginning of \<^verbatim>\<open>get_input\<close> is also given with key presses
  between its two assignments. An iteration of one thread is not interleaved with
  an iteration of the other.
\<close>

datatype column = Col0 | Col1 | Col2 | Col3

type_synonym keypress = "column \<times> int"

definition press :: "keypress \<Rightarrow> state \<Rightarrow> state" where
  "press k s = (let s1 = s\<lparr>row := snd k\<rparr> in
     case fst k of Col0 \<Rightarrow> isr_c0 s1 | Col1 \<Rightarrow> isr_c1 s1
                 | Col2 \<Rightarrow> isr_c2 s1 | Col3 \<Rightarrow> isr_c3 s1)"

fun presses :: "keypress list \<Rightarrow> state \<Rightarrow> state" where
  "presses [] s = s"
| "presses (k # ks) s = presses ks (press k s)"

text \<open>The sixteen keys of the keypad and where the handlers' comments and branches
  put them: row 0 is 1 2 3 A, row 1 is 4 5 6 B, row 2 is 7 8 9 C, row 3 is * 0 # D.\<close>

datatype key = K0 | K1 | K2 | K3 | K4 | K5 | K6 | K7 | K8 | K9
  | KA | KB | KC | KD | Kstar | Khash

fun key_at :: "key \<Rightarrow> keypress" where
  "key_at K1 = (Col0, 0)" | "key_at K2 = (Col1, 0)" | "key_at K3 = (Col2, 0)" | "key_at KA = (Col3, 0)"
| "key_at K4 = (Col0, 1)" | "key_at K5 = (Col1, 1)" | "key_at K6 = (Col2, 1)" | "key_at KB = (Col3, 1)"
| "key_at K7 = (Col0, 2)" | "key_at K8 = (Col1, 2)" | "key_at K9 = (Col2, 2)" | "key_at KC = (Col3, 2)"
| "key_at Kstar = (Col0, 3)" | "key_at K0 = (Col1, 3)" | "key_at Khash = (Col2, 3)" | "key_at KD = (Col3, 3)"

fun is_digit_key :: "key \<Rightarrow> bool" where
  "is_digit_key K0 = True" | "is_digit_key K1 = True" | "is_digit_key K2 = True"
| "is_digit_key K3 = True" | "is_digit_key K4 = True" | "is_digit_key K5 = True"
| "is_digit_key K6 = True" | "is_digit_key K7 = True" | "is_digit_key K8 = True"
| "is_digit_key K9 = True" | "is_digit_key _ = False"

fun key_char :: "key \<Rightarrow> char" where
  "key_char K0 = CHR ''0''" | "key_char K1 = CHR ''1''" | "key_char K2 = CHR ''2''"
| "key_char K3 = CHR ''3''" | "key_char K4 = CHR ''4''" | "key_char K5 = CHR ''5''"
| "key_char K6 = CHR ''6''" | "key_char K7 = CHR ''7''" | "key_char K8 = CHR ''8''"
| "key_char K9 = CHR ''9''" | "key_char KA = CHR ''A''" | "key_char KB = CHR ''B''"
| "key_char KC = CHR ''C''" | "key_char KD = CHR ''D''" | "key_char Kstar = CHR ''*''"
| "key_char Khash = CHR ''#''"

definition type_keys :: "key list \<Rightarrow> state \<Rightarrow> state" where
  "type_keys ks s = presses (map key_at ks) s"

section \<open>The scan loop of main\<close>

text \<open>One iteration of the \<^verbatim>\<open>while (true)\<close> loop of \<^verbatim>\<open>main\<close>.\<close>

definition main_loop_iter :: "state \<Rightarrow> state" where
  "main_loop_iter s =
     (let s1 = emit [Odr_clear] s;
          s2 = s1\<lparr>row := row s1 + 1\<rparr>;
          s3 = (if 3 < row s2 then s2\<lparr>row := 0\<rparr> else s2);
          s4 = (if row s3 = 0 then emit [Odr_set 0x1000] s3
                else if row s3 = 1 then emit [Odr_set 0x2000] s3
                else if row s3 = 2 then emit [Odr_set 0x4000] s3
                else emit [Odr_set 0x8000] s3)
      in emit [Watchdog_kick, Queue_dispatch] s4)"

section \<open>Update monitor state\<close>

text \<open>What one \<^verbatim>\<open>sensor.read()\<close> makes the three getters return.\<close>

record sample =
  getCelsius :: int
  getFahrenheit :: float32
  getHumidity :: int

definition update_sensor :: "sample \<Rightarrow> state \<Rightarrow> state" where
  "update_sensor r s = (emit [Sensor_read] s)
     \<lparr>celcius := getCelsius r, fahrenheit := getFahrenheit r, humidity := getHumidity r\<rparr>"

definition beep_and_flash :: "nat \<Rightarrow> state \<Rightarrow> state" where
  "beep_and_flash millisec s =
     emit [Buzzer_write 1, Led_write 1, Sleep millisec, Buzzer_write 0, Led_write 0] s"

definition flash :: "nat \<Rightarrow> state \<Rightarrow> state" where
  "flash millisec s = emit [Led_write 1, Sleep millisec, Led_write 0] s"

text \<open>
  Two loops of the program wait for a variable that only an interrupt handler
  writes. Such a loop is run against the key presses that arrive while it runs. Its
  outcome is \<open>Returned\<close> with the result when the loop has ended, and \<open>Waiting\<close>
  with the state it is in when the key presses are used up and it has not ended:
  without a further key press it stays in the loop.
\<close>

datatype 'a run = Waiting state | Returned 'a

text \<open>
  \<^verbatim>\<open>alert\<close> sets the mode and then loops while the mode is ALERT. The key presses
  come as one list per iteration of the loop: those that arrive during it.
\<close>

definition alert_cycle :: "state \<Rightarrow> state" where
  "alert_cycle s = emit [Sleep 1000] (beep_and_flash 1000 s)"

fun alert_loop :: "state \<Rightarrow> keypress list list \<Rightarrow> state run" where
  "alert_loop s [] = (if mode s = ALERT then Waiting s else Returned s)"
| "alert_loop s (ks # kss) =
     (if mode s = ALERT then alert_loop (presses ks (alert_cycle s)) kss else Returned s)"

definition alert :: "state \<Rightarrow> keypress list list \<Rightarrow> state run" where
  "alert s kss = alert_loop (s\<lparr>mode := ALERT\<rparr>) kss"

text \<open>The body of the loop \<^verbatim>\<open>while (mode == MONITOR)\<close> of \<^verbatim>\<open>monitor_state\<close>.\<close>

definition monitor_body :: "sample \<Rightarrow> keypress list list \<Rightarrow> state \<Rightarrow> state run" where
  "monitor_body r kss s0 =
     (let s = update_sensor r s0 in
      if (unit s = FAHRENHEIT \<and> fahrenheit s < temp_min_f s)
         \<or> (unit s = CELCIUS \<and> celcius s < temp_min_c s) then
        alert (emit [Lcd_clear, Lcd_print ''Temperature Too'',
                     Lcd_setCursor 6 1, Lcd_print ''Low''] s) kss
      else if (unit s = FAHRENHEIT \<and> temp_max_f s < fahrenheit s)
         \<or> (unit s = CELCIUS \<and> temp_max_c s < celcius s) then
        alert (emit [Lcd_clear, Lcd_print ''Temperature Too'',
                     Lcd_setCursor 6 1, Lcd_print ''High''] s) kss
      else if humidity s < humidity_min s then
        alert (emit [Lcd_clear, Lcd_print ''Humidity Too Low''] s) kss
      else if humidity_max s < humidity s then
        alert (emit [Lcd_clear, Lcd_print ''Humidity Too'',
                     Lcd_setCursor 6 1, Lcd_print ''High''] s) kss
      else Returned s)"

text \<open>One round of the outer loop of \<^verbatim>\<open>monitor_state\<close>: the body while the mode is
  MONITOR, the one-second sleep otherwise.\<close>

definition monitor_state_iter :: "sample \<Rightarrow> keypress list list \<Rightarrow> state \<Rightarrow> state run" where
  "monitor_state_iter r kss s =
     (if mode s = MONITOR then monitor_body r kss s else Returned (emit [Sleep 1000] s))"

section \<open>Getting input\<close>

definition is_space :: "char \<Rightarrow> bool" where
  "is_space c = (c \<in> set [CHR '' '', CHR 0x09, CHR 0x0A, CHR 0x0B, CHR 0x0C, CHR 0x0D])"

definition digit_val :: "char \<Rightarrow> int option" where
  "digit_val c = map_of [(CHR ''0'', 0), (CHR ''1'', 1), (CHR ''2'', 2), (CHR ''3'', 3),
     (CHR ''4'', 4), (CHR ''5'', 5), (CHR ''6'', 6), (CHR ''7'', 7), (CHR ''8'', 8),
     (CHR ''9'', 9)] c"

fun atoi_digits :: "int \<Rightarrow> string \<Rightarrow> int" where
  "atoi_digits acc [] = acc"
| "atoi_digits acc (c # cs) =
     (case digit_val c of None \<Rightarrow> acc | Some d \<Rightarrow> atoi_digits (acc * 10 + d) cs)"

text \<open>\<^verbatim>\<open>atoi\<close>: leading white space, an optional sign, then the decimal digits up to
  the first other character. The buffer it is applied to holds at most nine digits,
  so the value fits an \<^verbatim>\<open>int\<close>.\<close>

definition atoi :: "string \<Rightarrow> int" where
  "atoi str = (case dropWhile is_space str of
       [] \<Rightarrow> 0
     | c # cs \<Rightarrow> if c = CHR ''-'' then - atoi_digits 0 cs
                else if c = CHR ''+'' then atoi_digits 0 cs
                else atoi_digits 0 (c # cs))"

definition print_prompt :: "string \<Rightarrow> state \<Rightarrow> state" where
  "print_prompt prompt s = emit [Lcd_clear, Lcd_print prompt, Lcd_setCursor 0 1] s"

text \<open>
  \<^verbatim>\<open>get_input\<close> prints the prompt, empties the buffer and then loops until
  \<open>input_stage\<close> has passed the current stage, which only the handler of column 3
  brings about. The key presses arrive one between two tests of its condition.
  \<open>render\<close> is the body of the loop.
\<close>

definition render :: "string \<Rightarrow> state \<Rightarrow> state" where
  "render prompt s =
     (if input_modified s
      then (emit [Lcd_print (input_str s)] (print_prompt prompt s))\<lparr>input_modified := False\<rparr>
      else s)"

fun get_input_loop :: "string \<Rightarrow> int \<Rightarrow> state \<Rightarrow> keypress list \<Rightarrow> (state \<times> keypress list) run" where
  "get_input_loop prompt current_stage s [] =
     (if input_stage s \<le> current_stage then Waiting (render prompt s) else Returned (s, []))"
| "get_input_loop prompt current_stage s (k # ks) =
     (if input_stage s \<le> current_stage
      then get_input_loop prompt current_stage (press k (render prompt s)) ks
      else Returned (s, k # ks))"

text \<open>
  Before its loop \<^verbatim>\<open>get_input\<close> prints the prompt and assigns \<^verbatim>\<open>input_str = ""\<close>
  (\<open>get_input_clear\<close>), and then assigns \<^verbatim>\<open>input_len = 0\<close> (\<open>get_input_zero\<close>).
  A column interrupt can fall between the two assignments:
  \<open>get_input_begin_split\<close> is the beginning with the key presses \<open>kb\<close> arriving
  there, and \<open>get_input_begin\<close> the beginning with none.
\<close>

definition get_input_clear :: "string \<Rightarrow> state \<Rightarrow> state" where
  "get_input_clear prompt s = (print_prompt prompt s)\<lparr>input_str := []\<rparr>"

definition get_input_zero :: "state \<Rightarrow> state" where
  "get_input_zero s = s\<lparr>input_len := 0\<rparr>"

definition get_input_begin_split :: "string \<Rightarrow> keypress list \<Rightarrow> state \<Rightarrow> state" where
  "get_input_begin_split prompt kb s = get_input_zero (presses kb (get_input_clear prompt s))"

definition get_input_begin :: "string \<Rightarrow> state \<Rightarrow> state" where
  "get_input_begin prompt s = get_input_begin_split prompt [] s"

definition get_input :: "string \<Rightarrow> int \<Rightarrow> state \<Rightarrow> keypress list \<Rightarrow> (state \<times> keypress list) run" where
  "get_input prompt current_stage s ks =
     get_input_loop prompt current_stage (get_input_begin prompt s) ks"

definition validate_input :: "state \<Rightarrow> bool" where
  "validate_input s =
     (let valid_temp_c = (TEMP_MIN_C \<le> temp_min_c s \<and> temp_min_c s \<le> temp_max_c s
                          \<and> temp_max_c s \<le> TEMP_MAX_C);
          valid_temp_f = (of_int TEMP_MIN_F \<le> temp_min_f s \<and> temp_min_f s \<le> temp_max_f s
                          \<and> temp_max_f s \<le> of_int TEMP_MAX_F);
          valid_humidity = (HUMIDITY_MIN \<le> humidity_min s \<and> humidity_min s \<le> humidity_max s
                          \<and> humidity_max s \<le> HUMIDITY_MAX)
      in valid_humidity \<and> valid_temp_c \<and> valid_temp_f)"

section \<open>The display thread\<close>

text \<open>The conversion of the buffer to its internal value, at the end of a stage.\<close>

definition store_input :: "int \<Rightarrow> state \<Rightarrow> state" where
  "store_input current_stage s =
     (if current_stage = 0 then
        (if unit s = CELCIUS then
           (let s1 = s\<lparr>temp_min_c := atoi (input_str s)\<rparr>
            in s1\<lparr>temp_min_f := toFahrenheit (temp_min_c s1)\<rparr>)
         else
           (let s1 = s\<lparr>temp_min_f := float_of_int (atoi (input_str s))\<rparr>
            in s1\<lparr>temp_min_c := toCelcius (temp_min_f s1)\<rparr>))
      else if current_stage = 1 then
        (if unit s = CELCIUS then
           (let s1 = s\<lparr>temp_max_c := atoi (input_str s)\<rparr>
            in s1\<lparr>temp_max_f := toFahrenheit (temp_max_c s1)\<rparr>)
         else
           (let s1 = s\<lparr>temp_max_f := float_of_int (atoi (input_str s))\<rparr>
            in s1\<lparr>temp_max_c := toCelcius (temp_max_f s1)\<rparr>))
      else if current_stage = 2 then s\<lparr>humidity_min := atoi (input_str s)\<rparr>
      else if current_stage = 3 then s\<lparr>humidity_max := atoi (input_str s)\<rparr>
      else s)"

text \<open>The loop \<^verbatim>\<open>for (int current_stage = 0; current_stage < 4; current_stage++)\<close>.\<close>

function input_stages :: "int \<Rightarrow> state \<Rightarrow> keypress list \<Rightarrow> (state \<times> keypress list) run" where
  "input_stages current_stage s ks =
     (if current_stage < 4 then
        (case get_input (prompts ! nat current_stage) current_stage s ks of
           Waiting w \<Rightarrow> Waiting w
         | Returned (s1, ks1) \<Rightarrow> input_stages (current_stage + 1) (store_input current_stage s1) ks1)
      else Returned (s, ks))"
  by pat_completeness auto
termination
  by (relation "measure (\<lambda>(current_stage, s, ks). nat (4 - current_stage))") auto

declare input_stages.simps [simp del]

text \<open>The end of the INPUT branch: validation, and the notice when it fails.\<close>

definition input_finish :: "state \<Rightarrow> state" where
  "input_finish s1 =
     (let s = s1\<lparr>input_stage := - 1\<rparr> in
      if validate_input s then s\<lparr>mode := MONITOR\<rparr>
      else emit [Lcd_clear, Lcd_print ''Invalid Input'', Lcd_setCursor 0 1,
                 Lcd_print ''Please Try Again'', Sleep 3000] s)"

definition lcd_input :: "state \<Rightarrow> keypress list \<Rightarrow> (state \<times> keypress list) run" where
  "lcd_input s ks =
     (case input_stages 0 (s\<lparr>input_stage := 0\<rparr>) ks of
        Waiting w \<Rightarrow> Waiting w
      | Returned (s1, ks1) \<Rightarrow> Returned (input_finish s1, ks1))"

definition lcd_display :: "sample \<Rightarrow> state \<Rightarrow> state" where
  "lcd_display r s0 =
     (let s1 = update_sensor r (emit [Lcd_clear] s0);
          s2 = (if unit s1 = CELCIUS
                then emit [Lcd_print ''Temp (C): '', Lcd_print_int (celcius s1)] s1
                else emit [Lcd_print ''Temp (F): '', Lcd_print_float (fahrenheit s1)] s1)
      in emit [Lcd_setCursor 0 1, Lcd_print ''Humidity: '', Lcd_print_int (humidity s2),
               Sleep 1000] s2)"

text \<open>One iteration of the \<^verbatim>\<open>while (true)\<close> loop of \<^verbatim>\<open>update_lcd\<close>.\<close>

definition update_lcd_iter :: "sample \<Rightarrow> state \<Rightarrow> keypress list \<Rightarrow> (state \<times> keypress list) run" where
  "update_lcd_iter r s ks =
     (if mode s = MONITOR \<or> mode s = IDLE then Returned (lcd_display r s, ks)
      else if mode s = INPUT then lcd_input s ks
      else Returned (s, ks))"

section \<open>Notions used by the properties\<close>

text \<open>The configured bounds, as one value.\<close>

definition thresholds :: "state \<Rightarrow> int \<times> int \<times> float32 \<times> float32 \<times> int \<times> int" where
  "thresholds s = (temp_min_c s, temp_max_c s, temp_min_f s, temp_max_f s,
                   humidity_min s, humidity_max s)"

text \<open>The state a run of a thread is in: the state it has returned with, or the state
  in which it waits.\<close>

definition state_of :: "state run \<Rightarrow> state" where
  "state_of r = (case r of Waiting s \<Rightarrow> s | Returned s \<Rightarrow> s)"

definition state_of_input :: "(state \<times> keypress list) run \<Rightarrow> state" where
  "state_of_input r = (case r of Waiting s \<Rightarrow> s | Returned (s, ks) \<Rightarrow> s)"

text \<open>The mode holds one of the four mode constants.\<close>

definition mode_ok :: "state \<Rightarrow> bool" where
  "mode_ok s = (mode s = IDLE \<or> mode s = INPUT \<or> mode s = MONITOR \<or> mode s = ALERT)"

text \<open>A reading of 21 degrees Celsius and 40 percent humidity, for examples.\<close>

definition sample0 :: sample where
  "sample0 = \<lparr>getCelsius = 21, getFahrenheit = 349 / 5, getHumidity = 40\<rparr>"

text \<open>The state in which the display thread waits for the first entry, after the key
  D was pressed in the initial state: \<^verbatim>\<open>get_input\<close> has printed the first prompt and
  emptied the buffer.\<close>

definition input_start :: state where
  "input_start = get_input_begin (prompts ! 0) ((press (key_at KD) init_state)\<lparr>input_stage := 0\<rparr>)"

text \<open>
  The four breaches in the order the specification gives them, each judged against
  the selected unit, the first of them that holds, the reason reported for it, and
  what is written on the LCD for it.
\<close>

datatype breach = Temperature_low | Temperature_high | Humidity_low | Humidity_high

definition breached :: "state \<Rightarrow> breach \<Rightarrow> bool" where
  "breached s b = (case b of
       Temperature_low \<Rightarrow> (if unit s = CELCIUS then celcius s < temp_min_c s
                            else fahrenheit s < temp_min_f s)
     | Temperature_high \<Rightarrow> (if unit s = CELCIUS then temp_max_c s < celcius s
                             else temp_max_f s < fahrenheit s)
     | Humidity_low \<Rightarrow> humidity s < humidity_min s
     | Humidity_high \<Rightarrow> humidity_max s < humidity s)"

definition first_breach :: "state \<Rightarrow> breach option" where
  "first_breach s =
     find (breached s) [Temperature_low, Temperature_high, Humidity_low, Humidity_high]"

definition reason_text :: "breach \<Rightarrow> string" where
  "reason_text b = (case b of
       Temperature_low \<Rightarrow> ''Temperature Too Low''
     | Temperature_high \<Rightarrow> ''Temperature Too High''
     | Humidity_low \<Rightarrow> ''Humidity Too Low''
     | Humidity_high \<Rightarrow> ''Humidity Too High'')"

definition breach_display :: "breach \<Rightarrow> effect list" where
  "breach_display b = (case b of
       Temperature_low \<Rightarrow>
         [Lcd_clear, Lcd_print ''Temperature Too'', Lcd_setCursor 6 1, Lcd_print ''Low'']
     | Temperature_high \<Rightarrow>
         [Lcd_clear, Lcd_print ''Temperature Too'', Lcd_setCursor 6 1, Lcd_print ''High'']
     | Humidity_low \<Rightarrow> [Lcd_clear, Lcd_print ''Humidity Too Low'']
     | Humidity_high \<Rightarrow>
         [Lcd_clear, Lcd_print ''Humidity Too'', Lcd_setCursor 6 1, Lcd_print ''High''])"

text \<open>The text on the LCD: the pieces printed, in order, separated by blanks.\<close>

fun printed :: "effect list \<Rightarrow> string list" where
  "printed [] = []"
| "printed (Lcd_print t # es) = t # printed es"
| "printed (Lcd_clear # es) = printed es"
| "printed (e # es) = printed es"

definition lcd_text :: "effect list \<Rightarrow> string" where
  "lcd_text es = (case printed es of [] \<Rightarrow> [] | t # ts \<Rightarrow> foldl (\<lambda>a b. a @ '' '' @ b) t ts)"

text \<open>
  A state in MONITOR mode with the bounds 10 to 40 degrees Celsius (50 to 104
  Fahrenheit) and 30 to 80 percent, a reading of 45 degrees and 50 percent, and the
  state in which the monitor thread then waits.
\<close>

definition monitoring :: state where
  "monitoring = init_state\<lparr>row := 0, mode := MONITOR, temp_min_c := 10, temp_min_f := 50,
     temp_max_c := 40, temp_max_f := 104, humidity_min := 30, humidity_max := 80\<rparr>"

definition sample_hot :: sample where
  "sample_hot = \<lparr>getCelsius = 45, getFahrenheit = 113, getHumidity = 50\<rparr>"

definition alerting :: state where
  "alerting = state_of (monitor_state_iter sample_hot [] monitoring)"

text \<open>The key presses of one entry: its digits, then the key A. A session of four
  entries.\<close>

definition entry :: "key list \<Rightarrow> keypress list" where
  "entry ds = map key_at ds @ [key_at KA]"

definition session_keys :: "key list \<Rightarrow> key list \<Rightarrow> key list \<Rightarrow> key list \<Rightarrow> keypress list" where
  "session_keys d0 d1 d2 d3 = entry d0 @ entry d1 @ entry d2 @ entry d3"

text \<open>The two representations of a temperature bound agree: the one of the other unit
  is the conversion of the one of the selected unit.\<close>

definition min_paired :: "state \<Rightarrow> bool" where
  "min_paired s = (if unit s = CELCIUS then temp_min_f s = toFahrenheit (temp_min_c s)
                   else temp_min_c s = toCelcius (temp_min_f s))"

definition max_paired :: "state \<Rightarrow> bool" where
  "max_paired s = (if unit s = CELCIUS then temp_max_f s = toFahrenheit (temp_max_c s)
                   else temp_max_c s = toCelcius (temp_max_f s))"

text \<open>The bounds that four entries give, in the selected unit, and the notice of a
  failed validation.\<close>

definition entered :: "bool \<Rightarrow> string \<Rightarrow> string \<Rightarrow> string \<Rightarrow> string
    \<Rightarrow> int \<times> int \<times> float32 \<times> float32 \<times> int \<times> int" where
  "entered u b0 b1 b2 b3 =
     (if u = CELCIUS
      then (atoi b0, atoi b1, toFahrenheit (atoi b0), toFahrenheit (atoi b1), atoi b2, atoi b3)
      else (toCelcius (float_of_int (atoi b0)), toCelcius (float_of_int (atoi b1)),
            float_of_int (atoi b0), float_of_int (atoi b1), atoi b2, atoi b3))"

definition invalid_notice :: "effect list" where
  "invalid_notice = [Lcd_clear, Lcd_print ''Invalid Input'', Lcd_setCursor 0 1,
                     Lcd_print ''Please Try Again'', Sleep 3000]"

text \<open>
  The state after the key D in the initial state, and two sessions from it in
  Celsius: 10, 40, 30, 80, which is valid, and 40, 10, 30, 80, which is not.
\<close>

definition input_mode :: state where
  "input_mode = type_keys [KD] init_state"

definition keys_10_40_30_80 :: "keypress list" where
  "keys_10_40_30_80 = session_keys [K1, K0] [K4, K0] [K3, K0] [K8, K0]"

definition keys_40_10_30_80 :: "keypress list" where
  "keys_40_10_30_80 = session_keys [K4, K0] [K1, K0] [K3, K0] [K8, K0]"

definition session_valid :: state where
  "session_valid = state_of_input (lcd_input input_mode keys_10_40_30_80)"

definition session_invalid :: state where
  "session_invalid = state_of_input (lcd_input input_mode keys_40_10_30_80)"

text \<open>A third session, 10, 40, 10, 80, whose humidity bound is below the range, and the
  state in which the monitor thread waits when the reading of 45 degrees comes
  after the valid session.\<close>

definition keys_10_40_10_80 :: "keypress list" where
  "keys_10_40_10_80 = session_keys [K1, K0] [K4, K0] [K1, K0] [K8, K0]"

definition session_dry :: state where
  "session_dry = state_of_input (lcd_input input_mode keys_10_40_10_80)"

definition alert_after_session :: state where
  "alert_after_session = state_of (monitor_state_iter sample_hot [] session_valid)"

section \<open>Constants and the mode invariant\<close>

lemmas const_defs = BOUNCE_def MAX_INPUT_def TEMP_MIN_C_def TEMP_MIN_F_def TEMP_MAX_C_def
  TEMP_MAX_F_def HUMIDITY_MIN_def HUMIDITY_MAX_def FAHRENHEIT_def CELCIUS_def
  IDLE_def INPUT_def MONITOR_def ALERT_def

lemmas isr_defs = isr_c0_def isr_c1_def isr_c2_def isr_c3_def

lemma mode_emit [simp]: "mode (emit es s) = mode s"
  by (simp add: emit_def)

lemma mode_ok_isr_c0: "mode_ok s \<Longrightarrow> mode_ok (isr_c0 s)"
  by (auto simp add: isr_c0_def mode_ok_def Let_def)

lemma mode_ok_isr_c1: "mode_ok s \<Longrightarrow> mode_ok (isr_c1 s)"
  by (auto simp add: isr_c1_def mode_ok_def Let_def)

lemma mode_ok_isr_c2: "mode_ok s \<Longrightarrow> mode_ok (isr_c2 s)"
  by (auto simp add: isr_c2_def mode_ok_def Let_def)

lemma mode_ok_isr_c3: "mode_ok s \<Longrightarrow> mode_ok (isr_c3 s)"
  by (auto simp add: isr_c3_def mode_ok_def)

lemma mode_ok_row [simp]: "mode_ok (s\<lparr>row := r\<rparr>) = mode_ok s"
  by (simp add: mode_ok_def)

lemma mode_ok_press: "mode_ok s \<Longrightarrow> mode_ok (press k s)"
  by (cases k, cases "fst k")
     (simp_all add: press_def mode_ok_isr_c0 mode_ok_isr_c1 mode_ok_isr_c2 mode_ok_isr_c3)

lemma mode_ok_presses: "mode_ok s \<Longrightarrow> mode_ok (presses ks s)"
  by (induction ks arbitrary: s) (simp_all add: mode_ok_press)

lemma mode_ok_emit [simp]: "mode_ok (emit es s) = mode_ok s"
  by (simp add: mode_ok_def)

lemma mode_ok_main_loop_iter: "mode_ok s \<Longrightarrow> mode_ok (main_loop_iter s)"
  by (simp add: main_loop_iter_def Let_def mode_ok_def emit_def)

lemma mode_ok_render [simp]: "mode_ok (render p s) = mode_ok s"
  by (simp add: render_def mode_ok_def print_prompt_def)

lemma mode_ok_get_input_begin [simp]: "mode_ok (get_input_begin p s) = mode_ok s"
  by (simp add: get_input_begin_def get_input_begin_split_def get_input_clear_def
      get_input_zero_def mode_ok_def print_prompt_def)

lemma mode_ok_store_input [simp]: "mode_ok (store_input cs s) = mode_ok s"
  by (simp add: store_input_def mode_ok_def Let_def)

section \<open>Evaluating the conversions\<close>

lemma bitlen_0: "bitlen 0 = 0"
  by (simp add: bitlen.simps)

lemma bitlen_1: "bitlen (Suc 0) = 1"
  by (simp add: bitlen.simps)

lemma bitlen_numeral: "bitlen (numeral k) = Suc (bitlen (numeral k div 2))"
  by (subst bitlen.simps) simp

lemma floor_rat_numeral: "\<lfloor>numeral a / numeral b :: rat\<rfloor> = numeral a div numeral b"
  by (metis floor_divide_of_int_eq of_int_numeral)

lemma floor_rat_neg_numeral:
  "\<lfloor>- (numeral a / numeral b) :: rat\<rfloor> = - numeral a div numeral b"
  by (metis divide_minus_left floor_divide_of_int_eq of_int_neg_numeral of_int_numeral)

lemma floor_rat_one_numeral: "\<lfloor>1 / numeral b :: rat\<rfloor> = 1 div numeral b"
  by (metis floor_divide_of_int_eq of_int_1 of_int_numeral)

lemma ceiling_rat_numeral:
  "\<lceil>numeral a / numeral b :: rat\<rceil> = - (- numeral a div numeral b)"
  using ceiling_divide_eq_div[of "numeral a" "numeral b", where ?'a = rat] by simp

lemma ceiling_rat_neg_numeral:
  "\<lceil>- (numeral a / numeral b) :: rat\<rceil> = - (numeral a div numeral b)"
  using ceiling_divide_eq_div[of "- numeral a" "numeral b", where ?'a = rat] by simp

lemma ceiling_rat_one_numeral: "\<lceil>1 / numeral b :: rat\<rceil> = - (- 1 div numeral b)"
  using ceiling_divide_eq_div[of 1 "numeral b", where ?'a = rat] by simp

lemmas fl_eval = fround_def ilog2_def pow2_def round_even_def trunc_def
  bitlen_0 bitlen_1 bitlen_numeral floor_rat_numeral floor_rat_neg_numeral
  floor_rat_one_numeral ceiling_rat_numeral ceiling_rat_neg_numeral ceiling_rat_one_numeral

lemma d1_8_value: "d1_8 = 8106479329266893 / 4503599627370496"
  by (simp add: d1_8_def fl_eval)

text \<open>
  The values of \<open>toFahrenheit\<close> on 0 to 50 degrees Celsius, of the round trip through
  \<open>toCelcius\<close>, and of \<open>toCelcius\<close> on 32 to 122 degrees Fahrenheit, each computed
  by the simplifier from the definitions.
\<close>

lemma toFahrenheit_0: "toFahrenheit 0 = 32"
  by (simp add: toFahrenheit_def d1_8_value fl_eval)

lemma roundtrip_0: "toCelcius (toFahrenheit 0) = 0"
  by (simp add: toFahrenheit_0 toCelcius_def d1_8_value fl_eval)

lemma toFahrenheit_1: "toFahrenheit 1 = 8860467 / 262144"
  by (simp add: toFahrenheit_def d1_8_value fl_eval)

lemma roundtrip_1: "toCelcius (toFahrenheit 1) = 0"
  by (simp add: toFahrenheit_1 toCelcius_def d1_8_value fl_eval)

lemma toFahrenheit_2: "toFahrenheit 2 = 4666163 / 131072"
  by (simp add: toFahrenheit_def d1_8_value fl_eval)

lemma roundtrip_2: "toCelcius (toFahrenheit 2) = 1"
  by (simp add: toFahrenheit_2 toCelcius_def d1_8_value fl_eval)

lemma toFahrenheit_3: "toFahrenheit 3 = 4902093 / 131072"
  by (simp add: toFahrenheit_def d1_8_value fl_eval)

lemma roundtrip_3: "toCelcius (toFahrenheit 3) = 3"
  by (simp add: toFahrenheit_3 toCelcius_def d1_8_value fl_eval)

lemma toFahrenheit_4: "toFahrenheit 4 = 10276045 / 262144"
  by (simp add: toFahrenheit_def d1_8_value fl_eval)

lemma roundtrip_4: "toCelcius (toFahrenheit 4) = 4"
  by (simp add: toFahrenheit_4 toCelcius_def d1_8_value fl_eval)

lemma toFahrenheit_5: "toFahrenheit 5 = 41"
  by (simp add: toFahrenheit_def d1_8_value fl_eval)

lemma roundtrip_5: "toCelcius (toFahrenheit 5) = 5"
  by (simp add: toFahrenheit_5 toCelcius_def d1_8_value fl_eval)

lemma toFahrenheit_6: "toFahrenheit 6 = 11219763 / 262144"
  by (simp add: toFahrenheit_def d1_8_value fl_eval)

lemma roundtrip_6: "toCelcius (toFahrenheit 6) = 5"
  by (simp add: toFahrenheit_6 toCelcius_def d1_8_value fl_eval)

lemma toFahrenheit_7: "toFahrenheit 7 = 5845811 / 131072"
  by (simp add: toFahrenheit_def d1_8_value fl_eval)

lemma roundtrip_7: "toCelcius (toFahrenheit 7) = 6"
  by (simp add: toFahrenheit_7 toCelcius_def d1_8_value fl_eval)

lemma toFahrenheit_8: "toFahrenheit 8 = 6081741 / 131072"
  by (simp add: toFahrenheit_def d1_8_value fl_eval)

lemma roundtrip_8: "toCelcius (toFahrenheit 8) = 8"
  by (simp add: toFahrenheit_8 toCelcius_def d1_8_value fl_eval)

lemma toFahrenheit_9: "toFahrenheit 9 = 12635341 / 262144"
  by (simp add: toFahrenheit_def d1_8_value fl_eval)

lemma roundtrip_9: "toCelcius (toFahrenheit 9) = 9"
  by (simp add: toFahrenheit_9 toCelcius_def d1_8_value fl_eval)

lemma toFahrenheit_10: "toFahrenheit 10 = 50"
  by (simp add: toFahrenheit_def d1_8_value fl_eval)

lemma roundtrip_10: "toCelcius (toFahrenheit 10) = 10"
  by (simp add: toFahrenheit_10 toCelcius_def d1_8_value fl_eval)

lemma toFahrenheit_11: "toFahrenheit 11 = 13579059 / 262144"
  by (simp add: toFahrenheit_def d1_8_value fl_eval)

lemma roundtrip_11: "toCelcius (toFahrenheit 11) = 10"
  by (simp add: toFahrenheit_11 toCelcius_def d1_8_value fl_eval)

lemma toFahrenheit_12: "toFahrenheit 12 = 7025459 / 131072"
  by (simp add: toFahrenheit_def d1_8_value fl_eval)

lemma roundtrip_12: "toCelcius (toFahrenheit 12) = 11"
  by (simp add: toFahrenheit_12 toCelcius_def d1_8_value fl_eval)

lemma toFahrenheit_13: "toFahrenheit 13 = 7261389 / 131072"
  by (simp add: toFahrenheit_def d1_8_value fl_eval)

lemma roundtrip_13: "toCelcius (toFahrenheit 13) = 13"
  by (simp add: toFahrenheit_13 toCelcius_def d1_8_value fl_eval)

lemma toFahrenheit_14: "toFahrenheit 14 = 14994637 / 262144"
  by (simp add: toFahrenheit_def d1_8_value fl_eval)

lemma roundtrip_14: "toCelcius (toFahrenheit 14) = 14"
  by (simp add: toFahrenheit_14 toCelcius_def d1_8_value fl_eval)

lemma toFahrenheit_15: "toFahrenheit 15 = 59"
  by (simp add: toFahrenheit_def d1_8_value fl_eval)

lemma roundtrip_15: "toCelcius (toFahrenheit 15) = 15"
  by (simp add: toFahrenheit_15 toCelcius_def d1_8_value fl_eval)

lemma toFahrenheit_16: "toFahrenheit 16 = 15938355 / 262144"
  by (simp add: toFahrenheit_def d1_8_value fl_eval)

lemma roundtrip_16: "toCelcius (toFahrenheit 16) = 15"
  by (simp add: toFahrenheit_16 toCelcius_def d1_8_value fl_eval)

lemma toFahrenheit_17: "toFahrenheit 17 = 8205107 / 131072"
  by (simp add: toFahrenheit_def d1_8_value fl_eval)

lemma roundtrip_17: "toCelcius (toFahrenheit 17) = 16"
  by (simp add: toFahrenheit_17 toCelcius_def d1_8_value fl_eval)

lemma toFahrenheit_18: "toFahrenheit 18 = 8441037 / 131072"
  by (simp add: toFahrenheit_def d1_8_value fl_eval)

lemma roundtrip_18: "toCelcius (toFahrenheit 18) = 18"
  by (simp add: toFahrenheit_18 toCelcius_def d1_8_value fl_eval)

lemma toFahrenheit_19: "toFahrenheit 19 = 4338483 / 65536"
  by (simp add: toFahrenheit_def d1_8_value fl_eval)

lemma roundtrip_19: "toCelcius (toFahrenheit 19) = 18"
  by (simp add: toFahrenheit_19 toCelcius_def d1_8_value fl_eval)

lemma toFahrenheit_20: "toFahrenheit 20 = 68"
  by (simp add: toFahrenheit_def d1_8_value fl_eval)

lemma roundtrip_20: "toCelcius (toFahrenheit 20) = 20"
  by (simp add: toFahrenheit_20 toCelcius_def d1_8_value fl_eval)

lemma toFahrenheit_21: "toFahrenheit 21 = 4574413 / 65536"
  by (simp add: toFahrenheit_def d1_8_value fl_eval)

lemma roundtrip_21: "toCelcius (toFahrenheit 21) = 21"
  by (simp add: toFahrenheit_21 toCelcius_def d1_8_value fl_eval)

lemma toFahrenheit_22: "toFahrenheit 22 = 9384755 / 131072"
  by (simp add: toFahrenheit_def d1_8_value fl_eval)

lemma roundtrip_22: "toCelcius (toFahrenheit 22) = 21"
  by (simp add: toFahrenheit_22 toCelcius_def d1_8_value fl_eval)

lemma toFahrenheit_23: "toFahrenheit 23 = 9620685 / 131072"
  by (simp add: toFahrenheit_def d1_8_value fl_eval)

lemma roundtrip_23: "toCelcius (toFahrenheit 23) = 23"
  by (simp add: toFahrenheit_23 toCelcius_def d1_8_value fl_eval)

lemma toFahrenheit_24: "toFahrenheit 24 = 4928307 / 65536"
  by (simp add: toFahrenheit_def d1_8_value fl_eval)

lemma roundtrip_24: "toCelcius (toFahrenheit 24) = 23"
  by (simp add: toFahrenheit_24 toCelcius_def d1_8_value fl_eval)

lemma toFahrenheit_25: "toFahrenheit 25 = 77"
  by (simp add: toFahrenheit_def d1_8_value fl_eval)

lemma roundtrip_25: "toCelcius (toFahrenheit 25) = 25"
  by (simp add: toFahrenheit_25 toCelcius_def d1_8_value fl_eval)

lemma toFahrenheit_26: "toFahrenheit 26 = 5164237 / 65536"
  by (simp add: toFahrenheit_def d1_8_value fl_eval)

lemma roundtrip_26: "toCelcius (toFahrenheit 26) = 26"
  by (simp add: toFahrenheit_26 toCelcius_def d1_8_value fl_eval)

lemma toFahrenheit_27: "toFahrenheit 27 = 10564403 / 131072"
  by (simp add: toFahrenheit_def d1_8_value fl_eval)

lemma roundtrip_27: "toCelcius (toFahrenheit 27) = 26"
  by (simp add: toFahrenheit_27 toCelcius_def d1_8_value fl_eval)

lemma toFahrenheit_28: "toFahrenheit 28 = 10800333 / 131072"
  by (simp add: toFahrenheit_def d1_8_value fl_eval)

lemma roundtrip_28: "toCelcius (toFahrenheit 28) = 28"
  by (simp add: toFahrenheit_28 toCelcius_def d1_8_value fl_eval)

lemma toFahrenheit_29: "toFahrenheit 29 = 5518131 / 65536"
  by (simp add: toFahrenheit_def d1_8_value fl_eval)

lemma roundtrip_29: "toCelcius (toFahrenheit 29) = 28"
  by (simp add: toFahrenheit_29 toCelcius_def d1_8_value fl_eval)

lemma toFahrenheit_30: "toFahrenheit 30 = 86"
  by (simp add: toFahrenheit_def d1_8_value fl_eval)

lemma roundtrip_30: "toCelcius (toFahrenheit 30) = 30"
  by (simp add: toFahrenheit_30 toCelcius_def d1_8_value fl_eval)

lemma toFahrenheit_31: "toFahrenheit 31 = 5754061 / 65536"
  by (simp add: toFahrenheit_def d1_8_value fl_eval)

lemma roundtrip_31: "toCelcius (toFahrenheit 31) = 31"
  by (simp add: toFahrenheit_31 toCelcius_def d1_8_value fl_eval)

lemma toFahrenheit_32: "toFahrenheit 32 = 11744051 / 131072"
  by (simp add: toFahrenheit_def d1_8_value fl_eval)

lemma roundtrip_32: "toCelcius (toFahrenheit 32) = 31"
  by (simp add: toFahrenheit_32 toCelcius_def d1_8_value fl_eval)

lemma toFahrenheit_33: "toFahrenheit 33 = 11979981 / 131072"
  by (simp add: toFahrenheit_def d1_8_value fl_eval)

lemma roundtrip_33: "toCelcius (toFahrenheit 33) = 33"
  by (simp add: toFahrenheit_33 toCelcius_def d1_8_value fl_eval)

lemma toFahrenheit_34: "toFahrenheit 34 = 6107955 / 65536"
  by (simp add: toFahrenheit_def d1_8_value fl_eval)

lemma roundtrip_34: "toCelcius (toFahrenheit 34) = 33"
  by (simp add: toFahrenheit_34 toCelcius_def d1_8_value fl_eval)

lemma toFahrenheit_35: "toFahrenheit 35 = 95"
  by (simp add: toFahrenheit_def d1_8_value fl_eval)

lemma roundtrip_35: "toCelcius (toFahrenheit 35) = 35"
  by (simp add: toFahrenheit_35 toCelcius_def d1_8_value fl_eval)

lemma toFahrenheit_36: "toFahrenheit 36 = 6343885 / 65536"
  by (simp add: toFahrenheit_def d1_8_value fl_eval)

lemma roundtrip_36: "toCelcius (toFahrenheit 36) = 36"
  by (simp add: toFahrenheit_36 toCelcius_def d1_8_value fl_eval)

lemma toFahrenheit_37: "toFahrenheit 37 = 12923699 / 131072"
  by (simp add: toFahrenheit_def d1_8_value fl_eval)

lemma roundtrip_37: "toCelcius (toFahrenheit 37) = 36"
  by (simp add: toFahrenheit_37 toCelcius_def d1_8_value fl_eval)

lemma toFahrenheit_38: "toFahrenheit 38 = 13159629 / 131072"
  by (simp add: toFahrenheit_def d1_8_value fl_eval)

lemma roundtrip_38: "toCelcius (toFahrenheit 38) = 38"
  by (simp add: toFahrenheit_38 toCelcius_def d1_8_value fl_eval)

lemma toFahrenheit_39: "toFahrenheit 39 = 6697779 / 65536"
  by (simp add: toFahrenheit_def d1_8_value fl_eval)

lemma roundtrip_39: "toCelcius (toFahrenheit 39) = 38"
  by (simp add: toFahrenheit_39 toCelcius_def d1_8_value fl_eval)

lemma toFahrenheit_40: "toFahrenheit 40 = 104"
  by (simp add: toFahrenheit_def d1_8_value fl_eval)

lemma roundtrip_40: "toCelcius (toFahrenheit 40) = 40"
  by (simp add: toFahrenheit_40 toCelcius_def d1_8_value fl_eval)

lemma toFahrenheit_41: "toFahrenheit 41 = 6933709 / 65536"
  by (simp add: toFahrenheit_def d1_8_value fl_eval)

lemma roundtrip_41: "toCelcius (toFahrenheit 41) = 41"
  by (simp add: toFahrenheit_41 toCelcius_def d1_8_value fl_eval)

lemma toFahrenheit_42: "toFahrenheit 42 = 14103347 / 131072"
  by (simp add: toFahrenheit_def d1_8_value fl_eval)

lemma roundtrip_42: "toCelcius (toFahrenheit 42) = 41"
  by (simp add: toFahrenheit_42 toCelcius_def d1_8_value fl_eval)

lemma toFahrenheit_43: "toFahrenheit 43 = 14339277 / 131072"
  by (simp add: toFahrenheit_def d1_8_value fl_eval)

lemma roundtrip_43: "toCelcius (toFahrenheit 43) = 43"
  by (simp add: toFahrenheit_43 toCelcius_def d1_8_value fl_eval)

lemma toFahrenheit_44: "toFahrenheit 44 = 7287603 / 65536"
  by (simp add: toFahrenheit_def d1_8_value fl_eval)

lemma roundtrip_44: "toCelcius (toFahrenheit 44) = 43"
  by (simp add: toFahrenheit_44 toCelcius_def d1_8_value fl_eval)

lemma toFahrenheit_45: "toFahrenheit 45 = 113"
  by (simp add: toFahrenheit_def d1_8_value fl_eval)

lemma roundtrip_45: "toCelcius (toFahrenheit 45) = 45"
  by (simp add: toFahrenheit_45 toCelcius_def d1_8_value fl_eval)

lemma toFahrenheit_46: "toFahrenheit 46 = 7523533 / 65536"
  by (simp add: toFahrenheit_def d1_8_value fl_eval)

lemma roundtrip_46: "toCelcius (toFahrenheit 46) = 46"
  by (simp add: toFahrenheit_46 toCelcius_def d1_8_value fl_eval)

lemma toFahrenheit_47: "toFahrenheit 47 = 15282995 / 131072"
  by (simp add: toFahrenheit_def d1_8_value fl_eval)

lemma roundtrip_47: "toCelcius (toFahrenheit 47) = 46"
  by (simp add: toFahrenheit_47 toCelcius_def d1_8_value fl_eval)

lemma toFahrenheit_48: "toFahrenheit 48 = 15518925 / 131072"
  by (simp add: toFahrenheit_def d1_8_value fl_eval)

lemma roundtrip_48: "toCelcius (toFahrenheit 48) = 48"
  by (simp add: toFahrenheit_48 toCelcius_def d1_8_value fl_eval)

lemma toFahrenheit_49: "toFahrenheit 49 = 7877427 / 65536"
  by (simp add: toFahrenheit_def d1_8_value fl_eval)

lemma roundtrip_49: "toCelcius (toFahrenheit 49) = 48"
  by (simp add: toFahrenheit_49 toCelcius_def d1_8_value fl_eval)

lemma toFahrenheit_50: "toFahrenheit 50 = 122"
  by (simp add: toFahrenheit_def d1_8_value fl_eval)

lemma roundtrip_50: "toCelcius (toFahrenheit 50) = 50"
  by (simp add: toFahrenheit_50 toCelcius_def d1_8_value fl_eval)

lemma toCelcius_32: "toCelcius (float_of_int 32) = 0"
  by (simp add: toCelcius_def float_of_int_def d1_8_value fl_eval)

lemma toCelcius_33: "toCelcius (float_of_int 33) = 0"
  by (simp add: toCelcius_def float_of_int_def d1_8_value fl_eval)

lemma toCelcius_34: "toCelcius (float_of_int 34) = 1"
  by (simp add: toCelcius_def float_of_int_def d1_8_value fl_eval)

lemma toCelcius_35: "toCelcius (float_of_int 35) = 1"
  by (simp add: toCelcius_def float_of_int_def d1_8_value fl_eval)

lemma toCelcius_36: "toCelcius (float_of_int 36) = 2"
  by (simp add: toCelcius_def float_of_int_def d1_8_value fl_eval)

lemma toCelcius_37: "toCelcius (float_of_int 37) = 2"
  by (simp add: toCelcius_def float_of_int_def d1_8_value fl_eval)

lemma toCelcius_38: "toCelcius (float_of_int 38) = 3"
  by (simp add: toCelcius_def float_of_int_def d1_8_value fl_eval)

lemma toCelcius_39: "toCelcius (float_of_int 39) = 3"
  by (simp add: toCelcius_def float_of_int_def d1_8_value fl_eval)

lemma toCelcius_40: "toCelcius (float_of_int 40) = 4"
  by (simp add: toCelcius_def float_of_int_def d1_8_value fl_eval)

lemma toCelcius_41: "toCelcius (float_of_int 41) = 5"
  by (simp add: toCelcius_def float_of_int_def d1_8_value fl_eval)

lemma toCelcius_42: "toCelcius (float_of_int 42) = 5"
  by (simp add: toCelcius_def float_of_int_def d1_8_value fl_eval)

lemma toCelcius_43: "toCelcius (float_of_int 43) = 6"
  by (simp add: toCelcius_def float_of_int_def d1_8_value fl_eval)

lemma toCelcius_44: "toCelcius (float_of_int 44) = 6"
  by (simp add: toCelcius_def float_of_int_def d1_8_value fl_eval)

lemma toCelcius_45: "toCelcius (float_of_int 45) = 7"
  by (simp add: toCelcius_def float_of_int_def d1_8_value fl_eval)

lemma toCelcius_46: "toCelcius (float_of_int 46) = 7"
  by (simp add: toCelcius_def float_of_int_def d1_8_value fl_eval)

lemma toCelcius_47: "toCelcius (float_of_int 47) = 8"
  by (simp add: toCelcius_def float_of_int_def d1_8_value fl_eval)

lemma toCelcius_48: "toCelcius (float_of_int 48) = 8"
  by (simp add: toCelcius_def float_of_int_def d1_8_value fl_eval)

lemma toCelcius_49: "toCelcius (float_of_int 49) = 9"
  by (simp add: toCelcius_def float_of_int_def d1_8_value fl_eval)

lemma toCelcius_50: "toCelcius (float_of_int 50) = 10"
  by (simp add: toCelcius_def float_of_int_def d1_8_value fl_eval)

lemma toCelcius_51: "toCelcius (float_of_int 51) = 10"
  by (simp add: toCelcius_def float_of_int_def d1_8_value fl_eval)

lemma toCelcius_52: "toCelcius (float_of_int 52) = 11"
  by (simp add: toCelcius_def float_of_int_def d1_8_value fl_eval)

lemma toCelcius_53: "toCelcius (float_of_int 53) = 11"
  by (simp add: toCelcius_def float_of_int_def d1_8_value fl_eval)

lemma toCelcius_54: "toCelcius (float_of_int 54) = 12"
  by (simp add: toCelcius_def float_of_int_def d1_8_value fl_eval)

lemma toCelcius_55: "toCelcius (float_of_int 55) = 12"
  by (simp add: toCelcius_def float_of_int_def d1_8_value fl_eval)

lemma toCelcius_56: "toCelcius (float_of_int 56) = 13"
  by (simp add: toCelcius_def float_of_int_def d1_8_value fl_eval)

lemma toCelcius_57: "toCelcius (float_of_int 57) = 13"
  by (simp add: toCelcius_def float_of_int_def d1_8_value fl_eval)

lemma toCelcius_58: "toCelcius (float_of_int 58) = 14"
  by (simp add: toCelcius_def float_of_int_def d1_8_value fl_eval)

lemma toCelcius_59: "toCelcius (float_of_int 59) = 15"
  by (simp add: toCelcius_def float_of_int_def d1_8_value fl_eval)

lemma toCelcius_60: "toCelcius (float_of_int 60) = 15"
  by (simp add: toCelcius_def float_of_int_def d1_8_value fl_eval)

lemma toCelcius_61: "toCelcius (float_of_int 61) = 16"
  by (simp add: toCelcius_def float_of_int_def d1_8_value fl_eval)

lemma toCelcius_62: "toCelcius (float_of_int 62) = 16"
  by (simp add: toCelcius_def float_of_int_def d1_8_value fl_eval)

lemma toCelcius_63: "toCelcius (float_of_int 63) = 17"
  by (simp add: toCelcius_def float_of_int_def d1_8_value fl_eval)

lemma toCelcius_64: "toCelcius (float_of_int 64) = 17"
  by (simp add: toCelcius_def float_of_int_def d1_8_value fl_eval)

lemma toCelcius_65: "toCelcius (float_of_int 65) = 18"
  by (simp add: toCelcius_def float_of_int_def d1_8_value fl_eval)

lemma toCelcius_66: "toCelcius (float_of_int 66) = 18"
  by (simp add: toCelcius_def float_of_int_def d1_8_value fl_eval)

lemma toCelcius_67: "toCelcius (float_of_int 67) = 19"
  by (simp add: toCelcius_def float_of_int_def d1_8_value fl_eval)

lemma toCelcius_68: "toCelcius (float_of_int 68) = 20"
  by (simp add: toCelcius_def float_of_int_def d1_8_value fl_eval)

lemma toCelcius_69: "toCelcius (float_of_int 69) = 20"
  by (simp add: toCelcius_def float_of_int_def d1_8_value fl_eval)

lemma toCelcius_70: "toCelcius (float_of_int 70) = 21"
  by (simp add: toCelcius_def float_of_int_def d1_8_value fl_eval)

lemma toCelcius_71: "toCelcius (float_of_int 71) = 21"
  by (simp add: toCelcius_def float_of_int_def d1_8_value fl_eval)

lemma toCelcius_72: "toCelcius (float_of_int 72) = 22"
  by (simp add: toCelcius_def float_of_int_def d1_8_value fl_eval)

lemma toCelcius_73: "toCelcius (float_of_int 73) = 22"
  by (simp add: toCelcius_def float_of_int_def d1_8_value fl_eval)

lemma toCelcius_74: "toCelcius (float_of_int 74) = 23"
  by (simp add: toCelcius_def float_of_int_def d1_8_value fl_eval)

lemma toCelcius_75: "toCelcius (float_of_int 75) = 23"
  by (simp add: toCelcius_def float_of_int_def d1_8_value fl_eval)

lemma toCelcius_76: "toCelcius (float_of_int 76) = 24"
  by (simp add: toCelcius_def float_of_int_def d1_8_value fl_eval)

lemma toCelcius_77: "toCelcius (float_of_int 77) = 25"
  by (simp add: toCelcius_def float_of_int_def d1_8_value fl_eval)

lemma toCelcius_78: "toCelcius (float_of_int 78) = 25"
  by (simp add: toCelcius_def float_of_int_def d1_8_value fl_eval)

lemma toCelcius_79: "toCelcius (float_of_int 79) = 26"
  by (simp add: toCelcius_def float_of_int_def d1_8_value fl_eval)

lemma toCelcius_80: "toCelcius (float_of_int 80) = 26"
  by (simp add: toCelcius_def float_of_int_def d1_8_value fl_eval)

lemma toCelcius_81: "toCelcius (float_of_int 81) = 27"
  by (simp add: toCelcius_def float_of_int_def d1_8_value fl_eval)

lemma toCelcius_82: "toCelcius (float_of_int 82) = 27"
  by (simp add: toCelcius_def float_of_int_def d1_8_value fl_eval)

lemma toCelcius_83: "toCelcius (float_of_int 83) = 28"
  by (simp add: toCelcius_def float_of_int_def d1_8_value fl_eval)

lemma toCelcius_84: "toCelcius (float_of_int 84) = 28"
  by (simp add: toCelcius_def float_of_int_def d1_8_value fl_eval)

lemma toCelcius_85: "toCelcius (float_of_int 85) = 29"
  by (simp add: toCelcius_def float_of_int_def d1_8_value fl_eval)

lemma toCelcius_86: "toCelcius (float_of_int 86) = 30"
  by (simp add: toCelcius_def float_of_int_def d1_8_value fl_eval)

lemma toCelcius_87: "toCelcius (float_of_int 87) = 30"
  by (simp add: toCelcius_def float_of_int_def d1_8_value fl_eval)

lemma toCelcius_88: "toCelcius (float_of_int 88) = 31"
  by (simp add: toCelcius_def float_of_int_def d1_8_value fl_eval)

lemma toCelcius_89: "toCelcius (float_of_int 89) = 31"
  by (simp add: toCelcius_def float_of_int_def d1_8_value fl_eval)

lemma toCelcius_90: "toCelcius (float_of_int 90) = 32"
  by (simp add: toCelcius_def float_of_int_def d1_8_value fl_eval)

lemma toCelcius_91: "toCelcius (float_of_int 91) = 32"
  by (simp add: toCelcius_def float_of_int_def d1_8_value fl_eval)

lemma toCelcius_92: "toCelcius (float_of_int 92) = 33"
  by (simp add: toCelcius_def float_of_int_def d1_8_value fl_eval)

lemma toCelcius_93: "toCelcius (float_of_int 93) = 33"
  by (simp add: toCelcius_def float_of_int_def d1_8_value fl_eval)

lemma toCelcius_94: "toCelcius (float_of_int 94) = 34"
  by (simp add: toCelcius_def float_of_int_def d1_8_value fl_eval)

lemma toCelcius_95: "toCelcius (float_of_int 95) = 35"
  by (simp add: toCelcius_def float_of_int_def d1_8_value fl_eval)

lemma toCelcius_96: "toCelcius (float_of_int 96) = 35"
  by (simp add: toCelcius_def float_of_int_def d1_8_value fl_eval)

lemma toCelcius_97: "toCelcius (float_of_int 97) = 36"
  by (simp add: toCelcius_def float_of_int_def d1_8_value fl_eval)

lemma toCelcius_98: "toCelcius (float_of_int 98) = 36"
  by (simp add: toCelcius_def float_of_int_def d1_8_value fl_eval)

lemma toCelcius_99: "toCelcius (float_of_int 99) = 37"
  by (simp add: toCelcius_def float_of_int_def d1_8_value fl_eval)

lemma toCelcius_100: "toCelcius (float_of_int 100) = 37"
  by (simp add: toCelcius_def float_of_int_def d1_8_value fl_eval)

lemma toCelcius_101: "toCelcius (float_of_int 101) = 38"
  by (simp add: toCelcius_def float_of_int_def d1_8_value fl_eval)

lemma toCelcius_102: "toCelcius (float_of_int 102) = 38"
  by (simp add: toCelcius_def float_of_int_def d1_8_value fl_eval)

lemma toCelcius_103: "toCelcius (float_of_int 103) = 39"
  by (simp add: toCelcius_def float_of_int_def d1_8_value fl_eval)

lemma toCelcius_104: "toCelcius (float_of_int 104) = 40"
  by (simp add: toCelcius_def float_of_int_def d1_8_value fl_eval)

lemma toCelcius_105: "toCelcius (float_of_int 105) = 40"
  by (simp add: toCelcius_def float_of_int_def d1_8_value fl_eval)

lemma toCelcius_106: "toCelcius (float_of_int 106) = 41"
  by (simp add: toCelcius_def float_of_int_def d1_8_value fl_eval)

lemma toCelcius_107: "toCelcius (float_of_int 107) = 41"
  by (simp add: toCelcius_def float_of_int_def d1_8_value fl_eval)

lemma toCelcius_108: "toCelcius (float_of_int 108) = 42"
  by (simp add: toCelcius_def float_of_int_def d1_8_value fl_eval)

lemma toCelcius_109: "toCelcius (float_of_int 109) = 42"
  by (simp add: toCelcius_def float_of_int_def d1_8_value fl_eval)

lemma toCelcius_110: "toCelcius (float_of_int 110) = 43"
  by (simp add: toCelcius_def float_of_int_def d1_8_value fl_eval)

lemma toCelcius_111: "toCelcius (float_of_int 111) = 43"
  by (simp add: toCelcius_def float_of_int_def d1_8_value fl_eval)

lemma toCelcius_112: "toCelcius (float_of_int 112) = 44"
  by (simp add: toCelcius_def float_of_int_def d1_8_value fl_eval)

lemma toCelcius_113: "toCelcius (float_of_int 113) = 45"
  by (simp add: toCelcius_def float_of_int_def d1_8_value fl_eval)

lemma toCelcius_114: "toCelcius (float_of_int 114) = 45"
  by (simp add: toCelcius_def float_of_int_def d1_8_value fl_eval)

lemma toCelcius_115: "toCelcius (float_of_int 115) = 46"
  by (simp add: toCelcius_def float_of_int_def d1_8_value fl_eval)

lemma toCelcius_116: "toCelcius (float_of_int 116) = 46"
  by (simp add: toCelcius_def float_of_int_def d1_8_value fl_eval)

lemma toCelcius_117: "toCelcius (float_of_int 117) = 47"
  by (simp add: toCelcius_def float_of_int_def d1_8_value fl_eval)

lemma toCelcius_118: "toCelcius (float_of_int 118) = 47"
  by (simp add: toCelcius_def float_of_int_def d1_8_value fl_eval)

lemma toCelcius_119: "toCelcius (float_of_int 119) = 48"
  by (simp add: toCelcius_def float_of_int_def d1_8_value fl_eval)

lemma toCelcius_120: "toCelcius (float_of_int 120) = 48"
  by (simp add: toCelcius_def float_of_int_def d1_8_value fl_eval)

lemma toCelcius_121: "toCelcius (float_of_int 121) = 49"
  by (simp add: toCelcius_def float_of_int_def d1_8_value fl_eval)

lemma toCelcius_122: "toCelcius (float_of_int 122) = 50"
  by (simp add: toCelcius_def float_of_int_def d1_8_value fl_eval)

text \<open>The two ranges, case by case.\<close>

lemma int_0_50_cases:
  fixes c :: int
  assumes "0 \<le> c" and "c \<le> 50"
  shows "c = 0 \<or> c = 1 \<or> c = 2 \<or> c = 3 \<or> c = 4 \<or> c = 5 \<or> c = 6 \<or> c = 7 \<or> c = 8 \<or> c = 9 \<or> c = 10 \<or> c = 11 \<or> c = 12 \<or> c = 13 \<or> c = 14 \<or> c = 15 \<or> c = 16 \<or> c = 17 \<or> c = 18 \<or> c = 19 \<or> c = 20 \<or> c = 21 \<or> c = 22 \<or> c = 23 \<or> c = 24 \<or> c = 25 \<or> c = 26 \<or> c = 27 \<or> c = 28 \<or> c = 29 \<or> c = 30 \<or> c = 31 \<or> c = 32 \<or> c = 33 \<or> c = 34 \<or> c = 35 \<or> c = 36 \<or> c = 37 \<or> c = 38 \<or> c = 39 \<or> c = 40 \<or> c = 41 \<or> c = 42 \<or> c = 43 \<or> c = 44 \<or> c = 45 \<or> c = 46 \<or> c = 47 \<or> c = 48 \<or> c = 49 \<or> c = 50"
  using assms by presburger

lemma int_32_122_cases:
  fixes f :: int
  assumes "32 \<le> f" and "f \<le> 122"
  shows "f = 32 \<or> f = 33 \<or> f = 34 \<or> f = 35 \<or> f = 36 \<or> f = 37 \<or> f = 38 \<or> f = 39 \<or> f = 40 \<or> f = 41 \<or> f = 42 \<or> f = 43 \<or> f = 44 \<or> f = 45 \<or> f = 46 \<or> f = 47 \<or> f = 48 \<or> f = 49 \<or> f = 50 \<or> f = 51 \<or> f = 52 \<or> f = 53 \<or> f = 54 \<or> f = 55 \<or> f = 56 \<or> f = 57 \<or> f = 58 \<or> f = 59 \<or> f = 60 \<or> f = 61 \<or> f = 62 \<or> f = 63 \<or> f = 64 \<or> f = 65 \<or> f = 66 \<or> f = 67 \<or> f = 68 \<or> f = 69 \<or> f = 70 \<or> f = 71 \<or> f = 72 \<or> f = 73 \<or> f = 74 \<or> f = 75 \<or> f = 76 \<or> f = 77 \<or> f = 78 \<or> f = 79 \<or> f = 80 \<or> f = 81 \<or> f = 82 \<or> f = 83 \<or> f = 84 \<or> f = 85 \<or> f = 86 \<or> f = 87 \<or> f = 88 \<or> f = 89 \<or> f = 90 \<or> f = 91 \<or> f = 92 \<or> f = 93 \<or> f = 94 \<or> f = 95 \<or> f = 96 \<or> f = 97 \<or> f = 98 \<or> f = 99 \<or> f = 100 \<or> f = 101 \<or> f = 102 \<or> f = 103 \<or> f = 104 \<or> f = 105 \<or> f = 106 \<or> f = 107 \<or> f = 108 \<or> f = 109 \<or> f = 110 \<or> f = 111 \<or> f = 112 \<or> f = 113 \<or> f = 114 \<or> f = 115 \<or> f = 116 \<or> f = 117 \<or> f = 118 \<or> f = 119 \<or> f = 120 \<or> f = 121 \<or> f = 122"
  using assms by presburger

text \<open>
  On the range the sensor supports the conversions are exact up to their rounding:
  \<open>toFahrenheit\<close> differs from the exact value by the float rounding only, and
  \<open>toCelcius\<close> of a whole number of degrees Fahrenheit is the exact value rounded
  down.
\<close>

lemma toFahrenheit_close:
  fixes c :: int
  assumes "0 \<le> c" and "c \<le> 50"
  shows "\<bar>toFahrenheit c - (of_int c * 9 / 5 + 32)\<bar> < 1 / 100000"
  using int_0_50_cases[OF assms]
  by (elim disjE) (simp_all add: toFahrenheit_0 toFahrenheit_1 toFahrenheit_2 toFahrenheit_3 toFahrenheit_4 toFahrenheit_5 toFahrenheit_6 toFahrenheit_7 toFahrenheit_8 toFahrenheit_9 toFahrenheit_10 toFahrenheit_11 toFahrenheit_12 toFahrenheit_13 toFahrenheit_14 toFahrenheit_15 toFahrenheit_16 toFahrenheit_17 toFahrenheit_18 toFahrenheit_19 toFahrenheit_20 toFahrenheit_21 toFahrenheit_22 toFahrenheit_23 toFahrenheit_24 toFahrenheit_25 toFahrenheit_26 toFahrenheit_27 toFahrenheit_28 toFahrenheit_29 toFahrenheit_30 toFahrenheit_31 toFahrenheit_32 toFahrenheit_33 toFahrenheit_34 toFahrenheit_35 toFahrenheit_36 toFahrenheit_37 toFahrenheit_38 toFahrenheit_39 toFahrenheit_40 toFahrenheit_41 toFahrenheit_42 toFahrenheit_43 toFahrenheit_44 toFahrenheit_45 toFahrenheit_46 toFahrenheit_47 toFahrenheit_48 toFahrenheit_49 toFahrenheit_50)

lemma toCelcius_floor:
  fixes f :: int
  assumes "32 \<le> f" and "f \<le> 122"
  shows "toCelcius (float_of_int f) = \<lfloor>(of_int f - 32) * 5 / 9 :: rat\<rfloor>"
  using int_32_122_cases[OF assms]
  by (elim disjE) (simp_all add: toCelcius_32 toCelcius_33 toCelcius_34 toCelcius_35 toCelcius_36 toCelcius_37 toCelcius_38 toCelcius_39 toCelcius_40 toCelcius_41 toCelcius_42 toCelcius_43 toCelcius_44 toCelcius_45 toCelcius_46 toCelcius_47 toCelcius_48 toCelcius_49 toCelcius_50 toCelcius_51 toCelcius_52 toCelcius_53 toCelcius_54 toCelcius_55 toCelcius_56 toCelcius_57 toCelcius_58 toCelcius_59 toCelcius_60 toCelcius_61 toCelcius_62 toCelcius_63 toCelcius_64 toCelcius_65 toCelcius_66 toCelcius_67 toCelcius_68 toCelcius_69 toCelcius_70 toCelcius_71 toCelcius_72 toCelcius_73 toCelcius_74 toCelcius_75 toCelcius_76 toCelcius_77 toCelcius_78 toCelcius_79 toCelcius_80 toCelcius_81 toCelcius_82 toCelcius_83 toCelcius_84 toCelcius_85 toCelcius_86 toCelcius_87 toCelcius_88 toCelcius_89 toCelcius_90 toCelcius_91 toCelcius_92 toCelcius_93 toCelcius_94 toCelcius_95 toCelcius_96 toCelcius_97 toCelcius_98 toCelcius_99 toCelcius_100 toCelcius_101 toCelcius_102 toCelcius_103 toCelcius_104 toCelcius_105 toCelcius_106 toCelcius_107 toCelcius_108 toCelcius_109 toCelcius_110 toCelcius_111 toCelcius_112 toCelcius_113 toCelcius_114 toCelcius_115 toCelcius_116 toCelcius_117 toCelcius_118 toCelcius_119 toCelcius_120 toCelcius_121 toCelcius_122 floor_rat_numeral)

text \<open>
  Claim C10, as amended. For every integer \<open>c\<close> with \<open>0 \<le> c \<le> 50\<close>,
  \<open>toCelcius (toFahrenheit c)\<close> is \<open>c\<close> or \<open>c - 1\<close>: it is \<open>c - 1\<close> for the
  twenty-one values listed, where the float that \<open>toFahrenheit\<close> returns lies
  just below the exact Fahrenheit value and \<open>toCelcius\<close> truncates, and \<open>c\<close> for
  the other thirty.
\<close>

theorem celsius_roundtrip:
  fixes c :: int
  assumes "0 \<le> c" and "c \<le> 50"
  shows "toCelcius (toFahrenheit c) =
           (if c \<in> {1, 2, 6, 7, 11, 12, 16, 17, 19, 22, 24, 27, 29, 32, 34, 37, 39, 42, 44, 47, 49}
            then c - 1 else c)"
  using int_0_50_cases[OF assms]
  by (elim disjE) (simp_all add: roundtrip_0 roundtrip_1 roundtrip_2 roundtrip_3 roundtrip_4 roundtrip_5 roundtrip_6 roundtrip_7 roundtrip_8 roundtrip_9 roundtrip_10 roundtrip_11 roundtrip_12 roundtrip_13 roundtrip_14 roundtrip_15 roundtrip_16 roundtrip_17 roundtrip_18 roundtrip_19 roundtrip_20 roundtrip_21 roundtrip_22 roundtrip_23 roundtrip_24 roundtrip_25 roundtrip_26 roundtrip_27 roundtrip_28 roundtrip_29 roundtrip_30 roundtrip_31 roundtrip_32 roundtrip_33 roundtrip_34 roundtrip_35 roundtrip_36 roundtrip_37 roundtrip_38 roundtrip_39 roundtrip_40 roundtrip_41 roundtrip_42 roundtrip_43 roundtrip_44 roundtrip_45 roundtrip_46 roundtrip_47 roundtrip_48 roundtrip_49 roundtrip_50)

theorem celsius_roundtrip_witness:
  "(0::int) \<le> 3 \<and> (3::int) \<le> 50 \<and> toCelcius (toFahrenheit 3) = 3 \<and> toCelcius (toFahrenheit 2) = 1"
  using celsius_roundtrip[of 3] celsius_roundtrip[of 2] by simp

text \<open>
  Claim C10 as stated fails at \<open>c = 1\<close>: \<open>toFahrenheit 1\<close> is the float
  33.7999992..., and \<open>toCelcius\<close> of it is 0.
\<close>

theorem celsius_roundtrip_counterexample:
  "(0::int) \<le> 1 \<and> (1::int) \<le> 50 \<and> toCelcius (toFahrenheit 1) \<noteq> 1"
  by (simp add: roundtrip_1)

section \<open>Keys\<close>

lemma press_digit:
  assumes "is_digit_key k" and "mode s = INPUT" and "input_len s < 9"
  shows "press (key_at k) s = s\<lparr>row := snd (key_at k), input_str := input_str s @ [key_char k],
           input_len := input_len s + 1, input_modified := True,
           outs := outs s @ [Queue_call_flash BOUNCE]\<rparr>"
  using assms by (cases k) (simp_all add: press_def isr_defs emit_def MAX_INPUT_def)


lemma type_keys_Nil [simp]: "type_keys [] s = s"
  by (simp add: type_keys_def)

lemma type_keys_Cons [simp]: "type_keys (k # ks) s = type_keys ks (press (key_at k) s)"
  by (simp add: type_keys_def)




lemma input_start_value:
  "input_start = init_state\<lparr>row := 3, mode := INPUT, input_stage := 0, input_str := [],
     input_len := 0, outs := [Queue_call_flash 1000, Lcd_clear, Lcd_print ''Min Temperature?'',
                              Lcd_setCursor 0 1]\<rparr>"
  by (simp add: input_start_def get_input_begin_def get_input_begin_split_def get_input_clear_def get_input_zero_def print_prompt_def press_def isr_c3_def
      emit_def prompts_def init_state_def const_defs)


text \<open>
  Claim C6. The key C (column 3 with the scan cursor on row 2) pressed while the mode
  is not INPUT flips \<open>unit\<close> and leaves every other variable as it was; the handler
  also queues the LED pulse, as every handler does. Two presses in a row restore the
  unit and leave the mode and all six bounds unchanged.
\<close>

theorem unit_toggle:
  assumes "row s = 2" and "mode s \<noteq> INPUT"
  shows "press (key_at KC) s = isr_c3 s
       \<and> isr_c3 s = s\<lparr>unit := \<not> unit s, outs := outs s @ [Queue_call_flash BOUNCE]\<rparr>
       \<and> isr_c3 (isr_c3 s) =
           s\<lparr>outs := outs s @ [Queue_call_flash BOUNCE, Queue_call_flash BOUNCE]\<rparr>
       \<and> unit (isr_c3 (isr_c3 s)) = unit s
       \<and> mode (isr_c3 (isr_c3 s)) = mode s
       \<and> thresholds (isr_c3 (isr_c3 s)) = thresholds s
       \<and> type_keys [KC, KC] s = isr_c3 (isr_c3 s)
       \<and> unit (type_keys [KC] s) = (\<not> unit s)"
  using assms by (simp add: isr_c3_def emit_def press_def thresholds_def)

text \<open>The key C pressed twice in the initial state, with the scan cursor on row 2.\<close>

theorem unit_toggle_witness:
  "row (init_state\<lparr>row := 2\<rparr>) = 2 \<and> mode (init_state\<lparr>row := 2\<rparr>) \<noteq> INPUT
   \<and> unit (isr_c3 (init_state\<lparr>row := 2\<rparr>)) = FAHRENHEIT
   \<and> unit (isr_c3 (isr_c3 (init_state\<lparr>row := 2\<rparr>))) = CELCIUS"
proof -
  have a: "row (init_state\<lparr>row := 2\<rparr>) = 2" by simp
  have b: "mode (init_state\<lparr>row := 2\<rparr>) \<noteq> INPUT" by (simp add: init_state_def const_defs)
  note t = unit_toggle[OF a b]
  have u0: "unit (init_state\<lparr>row := 2\<rparr>) = CELCIUS" by (simp add: init_state_def)
  have u1: "unit (isr_c3 (init_state\<lparr>row := 2\<rparr>)) = (\<not> unit (init_state\<lparr>row := 2\<rparr>))"
    using t by simp
  have u2: "unit (isr_c3 (isr_c3 (init_state\<lparr>row := 2\<rparr>))) = unit (init_state\<lparr>row := 2\<rparr>)"
    using t by blast
  show ?thesis using a b u0 u1 u2 by (simp add: const_defs)
qed

text \<open>
  Claim C2 says that the keys * and # change no variable in any mode. In INPUT mode
  with room in the buffer they do: the handler of column 0 (and of column 2) appends
  nothing on row 3 but still increments \<open>input_len\<close> and sets \<open>input_modified\<close>.
  At the start of the first entry one * leaves the buffer empty with
  \<open>input_len = 1\<close> and the flag set, and after nine of them the digits 2 5 are
  rejected.
\<close>

theorem star_hash_in_input:
  "input_str input_start = [] \<and> input_len input_start = 0 \<and> \<not> input_modified input_start
   \<and> input_str (type_keys [Kstar] input_start) = []
   \<and> input_len (type_keys [Kstar] input_start) = 1
   \<and> input_modified (type_keys [Kstar] input_start)
   \<and> input_len (type_keys [Khash] input_start) = 1
   \<and> input_modified (type_keys [Khash] input_start)
   \<and> input_str (type_keys [Kstar, Kstar, Kstar, Kstar, Kstar, Kstar, Kstar, Kstar, Kstar, K2, K5]
        input_start) = []"
  by (simp add: input_start_value press_def isr_defs emit_def init_state_def const_defs)

section \<open>The mode invariant\<close>

lemma mode_ok_get_input_loop:
  "mode_ok s \<Longrightarrow> mode_ok (state_of_input (get_input_loop p cs s ks))"
proof (induction ks arbitrary: s)
  case Nil
  then show ?case by (simp add: state_of_input_def)
next
  case (Cons k ks)
  have "mode_ok (press k (render p s))" using Cons.prems by (simp add: mode_ok_press)
  then show ?case using Cons.IH Cons.prems by (simp add: state_of_input_def)
qed

lemma mode_ok_get_input:
  "mode_ok s \<Longrightarrow> mode_ok (state_of_input (get_input p cs s ks))"
  unfolding get_input_def by (rule mode_ok_get_input_loop) simp

lemma mode_ok_input_stages:
  "mode_ok s \<Longrightarrow> mode_ok (state_of_input (input_stages cs s ks))"
proof (induction cs s ks rule: input_stages.induct)
  case (1 cs s ks)
  show ?case
  proof (cases "cs < 4")
    case True
    note g = mode_ok_get_input[OF "1.prems", of "prompts ! nat cs" cs ks]
    show ?thesis
    proof (cases "get_input (prompts ! nat cs) cs s ks")
      case (Waiting w)
      then show ?thesis using True g
        by (subst input_stages.simps) (simp add: state_of_input_def)
    next
      case (Returned p)
      obtain s1 ks1 where p: "p = (s1, ks1)" by (cases p)
      have "mode_ok s1" using g Returned p by (simp add: state_of_input_def)
      then have "mode_ok (store_input cs s1)" by simp
      then have "mode_ok (state_of_input (input_stages (cs + 1) (store_input cs s1) ks1))"
        using "1.IH"[OF True Returned p[symmetric]] by simp
      then show ?thesis using True Returned p by (subst input_stages.simps) simp
    qed
  next
    case False
    then show ?thesis using "1.prems"
      by (subst input_stages.simps) (simp add: state_of_input_def)
  qed
qed

lemma mode_ok_input_finish: "mode_ok s \<Longrightarrow> mode_ok (input_finish s)"
  by (simp add: input_finish_def Let_def mode_ok_def)

lemma mode_ok_lcd_input:
  assumes "mode_ok s"
  shows "mode_ok (state_of_input (lcd_input s ks))"
proof -
  have "mode_ok (s\<lparr>input_stage := 0\<rparr>)" using assms by (simp add: mode_ok_def)
  then have "mode_ok (state_of_input (input_stages 0 (s\<lparr>input_stage := 0\<rparr>) ks))"
    by (rule mode_ok_input_stages)
  then show ?thesis
    by (auto simp: lcd_input_def state_of_input_def mode_ok_input_finish split: run.splits)
qed

lemma mode_ok_lcd_display [simp]: "mode_ok (lcd_display r s) = mode_ok s"
  by (simp add: lcd_display_def Let_def mode_ok_def update_sensor_def)

lemma mode_ok_update_lcd_iter:
  "mode_ok s \<Longrightarrow> mode_ok (state_of_input (update_lcd_iter r s ks))"
  using mode_ok_lcd_input[of s ks] by (simp add: update_lcd_iter_def state_of_input_def)

lemma mode_ok_alert_cycle [simp]: "mode_ok (alert_cycle s) = mode_ok s"
  by (simp add: alert_cycle_def beep_and_flash_def)

lemma mode_ok_alert_loop: "mode_ok s \<Longrightarrow> mode_ok (state_of (alert_loop s kss))"
proof (induction kss arbitrary: s)
  case Nil
  then show ?case by (simp add: state_of_def)
next
  case (Cons ks kss)
  have "mode_ok (presses ks (alert_cycle s))" using Cons.prems by (simp add: mode_ok_presses)
  then show ?case using Cons.IH Cons.prems by (simp add: state_of_def)
qed

lemma mode_ok_alert: "mode_ok (state_of (alert s kss))"
  unfolding alert_def by (rule mode_ok_alert_loop) (simp add: mode_ok_def)

lemma mode_ok_update_sensor [simp]: "mode_ok (update_sensor r s) = mode_ok s"
  by (simp add: update_sensor_def mode_ok_def)

lemma mode_ok_monitor_body: "mode_ok s \<Longrightarrow> mode_ok (state_of (monitor_body r kss s))"
  by (simp add: monitor_body_def Let_def mode_ok_alert) (simp add: state_of_def)

lemma mode_ok_monitor_state_iter:
  "mode_ok s \<Longrightarrow> mode_ok (state_of (monitor_state_iter r kss s))"
  by (simp add: monitor_state_iter_def mode_ok_monitor_body) (simp add: state_of_def)

text \<open>
  Claim C9. The mode variable only ever holds one of the four values IDLE (0),
  INPUT (1), MONITOR (2), ALERT (3): it starts as IDLE, and every operation of the
  program (the four interrupt handlers, an iteration of the scan loop, an iteration
  of the display thread, a round of the monitor thread, and \<open>alert\<close>) leaves it one
  of the four when it was one of the four before, whether the operation has
  returned or is waiting for a key.
\<close>

theorem mode_invariant:
  "mode init_state = IDLE \<and> mode_ok init_state \<and>
   (mode_ok s \<longleftrightarrow> mode s \<in> {0, 1, 2, 3}) \<and>
   (mode_ok s \<longrightarrow>
      mode_ok (isr_c0 s) \<and> mode_ok (isr_c1 s) \<and> mode_ok (isr_c2 s) \<and> mode_ok (isr_c3 s) \<and>
      mode_ok (main_loop_iter s) \<and>
      mode_ok (state_of_input (update_lcd_iter r s ks)) \<and>
      mode_ok (state_of (monitor_state_iter r kss s)) \<and>
      mode_ok (state_of (alert s kss)))"
proof (intro conjI impI)
  show "mode init_state = IDLE" by (simp add: init_state_def)
  show "mode_ok init_state" by (simp add: init_state_def mode_ok_def)
  show "mode_ok s \<longleftrightarrow> mode s \<in> {0, 1, 2, 3}"
    by (auto simp: mode_ok_def const_defs)
next
  assume "mode_ok s"
  then show "mode_ok (isr_c0 s)" by (rule mode_ok_isr_c0)
next
  assume "mode_ok s"
  then show "mode_ok (isr_c1 s)" by (rule mode_ok_isr_c1)
next
  assume "mode_ok s"
  then show "mode_ok (isr_c2 s)" by (rule mode_ok_isr_c2)
next
  assume "mode_ok s"
  then show "mode_ok (isr_c3 s)" by (rule mode_ok_isr_c3)
next
  assume "mode_ok s"
  then show "mode_ok (main_loop_iter s)" by (rule mode_ok_main_loop_iter)
next
  assume "mode_ok s"
  then show "mode_ok (state_of_input (update_lcd_iter r s ks))" by (rule mode_ok_update_lcd_iter)
next
  assume "mode_ok s"
  then show "mode_ok (state_of (monitor_state_iter r kss s))" by (rule mode_ok_monitor_state_iter)
next
  show "mode_ok (state_of (alert s kss))" by (rule mode_ok_alert)
qed

lemma monitoring_alert_B:
  "mode (state_of (monitor_state_iter sample_hot [[(Col3, 1)]] monitoring)) = IDLE"
  by (simp add: monitor_state_iter_def monitor_body_def monitoring_def sample_hot_def
      update_sensor_def alert_def alert_cycle_def beep_and_flash_def emit_def press_def
      isr_c3_def state_of_def init_state_def const_defs)

text \<open>The invariant in MONITOR mode: after the key D, and after a round of the monitor
  thread that raises the alert and is ended by the key B.\<close>

theorem mode_invariant_witness:
  "mode_ok monitoring \<and> mode (isr_c3 (monitoring\<lparr>row := 3\<rparr>)) = INPUT
   \<and> mode_ok (isr_c3 (monitoring\<lparr>row := 3\<rparr>))
   \<and> mode (state_of (monitor_state_iter sample_hot [[(Col3, 1)]] monitoring)) = IDLE
   \<and> mode_ok (state_of (monitor_state_iter sample_hot [[(Col3, 1)]] monitoring))"
proof -
  have ok: "mode_ok monitoring" by (simp add: monitoring_def mode_ok_def)
  have ok3: "mode_ok (monitoring\<lparr>row := 3\<rparr>)" using ok by simp
  have m3: "mode (isr_c3 (monitoring\<lparr>row := 3\<rparr>)) = INPUT"
    by (simp add: isr_c3_def)
  have a: "mode_ok (isr_c3 (monitoring\<lparr>row := 3\<rparr>))"
    using mode_invariant[of "monitoring\<lparr>row := 3\<rparr>" sample_hot "[]" "[]"] ok3 by blast
  have b: "mode_ok (state_of (monitor_state_iter sample_hot [[(Col3, 1)]] monitoring))"
    using mode_invariant[of monitoring sample_hot "[]" "[[(Col3, 1)]]"] ok by blast
  show ?thesis
    by (intro conjI) (rule ok m3 a monitoring_alert_B b)+
qed


section \<open>The monitor thread\<close>

lemma lcd_text_reason: "lcd_text (breach_display b) = reason_text b"
  by (cases b) (simp_all add: lcd_text_def breach_display_def reason_text_def)

lemma monitor_body_first_breach:
  "monitor_body r kss s =
     (case first_breach (update_sensor r s) of
        None \<Rightarrow> Returned (update_sensor r s)
      | Some b \<Rightarrow> alert (emit (breach_display b) (update_sensor r s)) kss)"
  by (auto simp add: monitor_body_def first_breach_def breached_def breach_display_def Let_def
      FAHRENHEIT_def CELCIUS_def)

lemma alert_no_keys: "alert s [] = Waiting (s\<lparr>mode := ALERT\<rparr>)"
  by (simp add: alert_def)

text \<open>
  Claim C4. While the mode is MONITOR, a round of the monitor thread reads the
  sensor and checks low temperature, high temperature, low humidity, high humidity
  in this order against the selected unit; for the first that holds, and only for
  it, it writes the reason on the LCD and enters \<open>alert\<close>, which sets the mode to
  ALERT. With the bounds 10 to 40 degrees Celsius and 30 to 80 percent and a reading
  of 45 degrees and 50 percent the reason is "Temperature Too High".
\<close>

theorem monitor_priority:
  assumes "mode s = MONITOR"
  shows "monitor_state_iter r kss s =
           (case first_breach (update_sensor r s) of
              None \<Rightarrow> Returned (update_sensor r s)
            | Some b \<Rightarrow> alert (emit (breach_display b) (update_sensor r s)) kss)
       \<and> lcd_text (breach_display b) = reason_text b
       \<and> alert (emit (breach_display b) (update_sensor r s)) [] =
           Waiting ((emit (breach_display b) (update_sensor r s))\<lparr>mode := ALERT\<rparr>)
       \<and> (temp_min_c s = 10 \<and> temp_max_c s = 40
            \<and> humidity_min s = 30 \<and> humidity_max s = 80
            \<and> getCelsius r = 45 \<and> getHumidity r = 50
            \<and> (unit s = CELCIUS
                \<or> temp_min_f s = 50 \<and> temp_max_f s = 104 \<and> getFahrenheit r = 113) \<longrightarrow>
          first_breach (update_sensor r s) = Some Temperature_high
          \<and> monitor_state_iter r [] s =
              Waiting ((emit (breach_display Temperature_high) (update_sensor r s))\<lparr>mode := ALERT\<rparr>)
          \<and> reason_text Temperature_high = ''Temperature Too High'')"
proof -
  have m: "monitor_state_iter r kss s = monitor_body r kss s" for kss
    using assms by (simp add: monitor_state_iter_def)
  have ex: "first_breach (update_sensor r s) = Some Temperature_high"
    if "temp_min_c s = 10" "temp_max_c s = 40"
       "humidity_min s = 30" "humidity_max s = 80" "getCelsius r = 45" "getHumidity r = 50"
       "unit s = CELCIUS \<or> temp_min_f s = 50 \<and> temp_max_f s = 104 \<and> getFahrenheit r = 113"
    using that by (auto simp add: first_breach_def breached_def update_sensor_def emit_def)
  have run: "monitor_state_iter r [] s =
      Waiting ((emit (breach_display Temperature_high) (update_sensor r s))\<lparr>mode := ALERT\<rparr>)"
    if "first_breach (update_sensor r s) = Some Temperature_high"
    using that by (simp add: m monitor_body_first_breach alert_no_keys)
  show ?thesis
    using ex run
    by (simp add: m monitor_body_first_breach lcd_text_reason alert_no_keys reason_text_def)
qed

text \<open>The example of the claim, in the state \<open>monitoring\<close>.\<close>

theorem monitor_priority_witness:
  "mode monitoring = MONITOR
   \<and> monitor_state_iter sample_hot [] monitoring =
       Waiting (monitoring\<lparr>celcius := 45, fahrenheit := 113, humidity := 50, mode := ALERT,
         outs := [Sensor_read, Lcd_clear, Lcd_print ''Temperature Too'', Lcd_setCursor 6 1,
                  Lcd_print ''High'']\<rparr>)"
proof -
  have a: "mode monitoring = MONITOR" by (simp add: monitoring_def)
  have h: "temp_min_c monitoring = 10 \<and> temp_max_c monitoring = 40
      \<and> humidity_min monitoring = 30 \<and> humidity_max monitoring = 80
      \<and> getCelsius sample_hot = 45 \<and> getHumidity sample_hot = 50
      \<and> (unit monitoring = CELCIUS
          \<or> temp_min_f monitoring = 50 \<and> temp_max_f monitoring = 104
            \<and> getFahrenheit sample_hot = 113)"
    by (simp add: monitoring_def sample_hot_def)
  have "monitor_state_iter sample_hot [] monitoring =
      Waiting ((emit (breach_display Temperature_high) (update_sensor sample_hot monitoring))\<lparr>mode := ALERT\<rparr>)"
    using monitor_priority[OF a, of sample_hot "[]" Temperature_high] h by blast
  moreover have "(emit (breach_display Temperature_high) (update_sensor sample_hot monitoring))\<lparr>mode := ALERT\<rparr>
     = monitoring\<lparr>celcius := 45, fahrenheit := 113, humidity := 50, mode := ALERT,
         outs := [Sensor_read, Lcd_clear, Lcd_print ''Temperature Too'', Lcd_setCursor 6 1,
                  Lcd_print ''High'']\<rparr>"
    by (simp add: emit_def update_sensor_def breach_display_def sample_hot_def monitoring_def
        init_state_def)
  ultimately show ?thesis using a by simp
qed


section \<open>Leaving the alert\<close>

lemma mode_press:
  "mode (press k s) = (if k = (Col3, 1) \<and> mode s \<noteq> INPUT then IDLE
                       else if k = (Col3, 3) then INPUT else mode s)"
proof (cases k)
  case (Pair c r)
  then show ?thesis
    by (cases c) (auto simp add: press_def isr_defs Let_def)
qed

lemma mode_presses_quiet:
  "\<forall>k\<in>set ks. k \<noteq> (Col3, 1) \<and> k \<noteq> (Col3, 3) \<Longrightarrow> mode (presses ks s) = mode s"
  by (induction ks arbitrary: s) (simp_all add: mode_press)

lemma presses_append: "presses (ks @ ks') s = presses ks' (presses ks s)"
  by (induction ks arbitrary: s) simp_all

lemma mode_alert_cycle [simp]: "mode (alert_cycle s) = mode s"
  by (simp add: alert_cycle_def beep_and_flash_def)

lemma mode_presses_input: "mode s = INPUT \<Longrightarrow> mode (presses ks s) = INPUT"
  by (induction ks arbitrary: s) (simp_all add: mode_press)

lemma alert_loop_quiet:
  assumes "\<forall>ks\<in>set kss. \<forall>k\<in>set ks. k \<noteq> (Col3, 1) \<and> k \<noteq> (Col3, 3)" and "mode s = ALERT"
  shows "alert_loop s kss = Waiting (state_of (alert_loop s kss))
       \<and> mode (state_of (alert_loop s kss)) = ALERT"
  using assms
proof (induction kss arbitrary: s)
  case Nil
  then show ?case by (simp add: state_of_def)
next
  case (Cons ks kss)
  have "mode (presses ks (alert_cycle s)) = ALERT"
    using Cons.prems by (simp add: mode_presses_quiet)
  then show ?case using Cons.IH Cons.prems by simp
qed

lemma alert_loop_append:
  "alert_loop s kss = Waiting w \<Longrightarrow> alert_loop s (kss @ kss') = alert_loop w kss'"
proof (induction kss arbitrary: s)
  case Nil
  then show ?case by (simp split: if_splits)
next
  case (Cons ks kss)
  then show ?case by (simp split: if_splits)
qed

lemma alert_loop_last_key:
  assumes "\<forall>k\<in>set ks. k \<noteq> (Col3, 1) \<and> k \<noteq> (Col3, 3)" and "mode s = ALERT"
    and "k = (Col3, 1) \<or> k = (Col3, 3)"
  shows "alert_loop s [ks @ [k]] = Returned (press k (presses ks (alert_cycle s)))
       \<and> mode (press k (presses ks (alert_cycle s))) = (if k = (Col3, 1) then IDLE else INPUT)"
proof -
  have m: "mode (presses ks (alert_cycle s)) = ALERT"
    using assms(1,2) by (simp add: mode_presses_quiet)
  have m': "mode (press k (presses ks (alert_cycle s))) = (if k = (Col3, 1) then IDLE else INPUT)"
    using assms(3) m by (auto simp add: mode_press const_defs)
  then have "mode (press k (presses ks (alert_cycle s))) \<noteq> ALERT"
    by (simp add: const_defs split: if_splits)
  then show ?thesis using m' assms(2) by (simp add: presses_append)
qed

lemma update_lcd_iter_begin:
  assumes "mode s = INPUT"
  shows "update_lcd_iter r s [] =
           Waiting (render (prompts ! 0)
                     (get_input_begin_split (prompts ! 0) [] (s\<lparr>input_stage := 0\<rparr>)))"
  using assms
  by (simp add: update_lcd_iter_def lcd_input_def input_stages.simps[of 0] get_input_def
      get_input_begin_def get_input_begin_split_def get_input_clear_def get_input_zero_def print_prompt_def emit_def const_defs)

lemma press_D:
  "press (Col3, 3) s = s\<lparr>row := 3, mode := INPUT, outs := outs s @ [Queue_call_flash BOUNCE]\<rparr>"
  by (simp add: press_def isr_c3_def emit_def)

lemma begin_no_key:
  "input_stage (get_input_begin_split p [] (t\<lparr>input_stage := 0\<rparr>)) = 0
   \<and> input_str (get_input_begin_split p [] (t\<lparr>input_stage := 0\<rparr>)) = []
   \<and> input_len (get_input_begin_split p [] (t\<lparr>input_stage := 0\<rparr>)) = 0"
  by (simp add: get_input_begin_split_def get_input_clear_def get_input_zero_def
      print_prompt_def emit_def)

lemma begin_digit_between:
  assumes "is_digit_key k" and "mode t = INPUT" and "input_len t < MAX_INPUT"
  shows "input_str (get_input_begin_split p [key_at k] (t\<lparr>input_stage := 0\<rparr>)) = [key_char k]
       \<and> input_len (get_input_begin_split p [key_at k] (t\<lparr>input_stage := 0\<rparr>)) = 0"
proof -
  let ?c = "get_input_clear p (t\<lparr>input_stage := 0\<rparr>)"
  have m: "mode ?c = INPUT" and l: "input_len ?c < 9" and e: "input_str ?c = []"
    using assms(2,3) by (simp_all add: get_input_clear_def print_prompt_def emit_def MAX_INPUT_def)
  show ?thesis
    using e by (simp add: get_input_begin_split_def get_input_zero_def press_digit[OF assms(1) m l])
qed

text \<open>
  Claim C7, as amended. In ALERT mode the key B sets the mode to IDLE and the key D
  sets it to INPUT. Nothing else changes the mode: no other key press, no iteration
  of the alert loop, of the scan loop or of the display thread. So the alert loop
  keeps waiting through any number of iterations in which neither key arrives, in
  mode ALERT, and returns after the iteration in which B or D arrives. The handler
  of D assigns the mode only: \<open>input_stage\<close>, the buffer and \<open>input_len\<close> keep their
  values, and no later key press leaves INPUT mode. The new entry is set up by the
  display thread when it next runs: it sets \<open>input_stage\<close> to 0, empties the buffer
  and then resets \<open>input_len\<close>. The buffer is empty at that point when no key press
  falls between the two assignments; a digit that falls there stays in the buffer,
  with \<open>input_len\<close> 0.
\<close>

theorem alert_exit:
  assumes "mode s = ALERT"
    and "\<forall>ks\<in>set kss. \<forall>k\<in>set ks. k \<noteq> key_at KB \<and> k \<noteq> key_at KD"
    and "\<forall>k\<in>set ks. k \<noteq> key_at KB \<and> k \<noteq> key_at KD"
  shows "mode (type_keys [KB] s) = IDLE \<and> mode (type_keys [KD] s) = INPUT
       \<and> type_keys [KD] s =
           s\<lparr>row := 3, mode := INPUT, outs := outs s @ [Queue_call_flash BOUNCE]\<rparr>
       \<and> input_stage (type_keys [KD] s) = input_stage s
       \<and> input_str (type_keys [KD] s) = input_str s
       \<and> input_len (type_keys [KD] s) = input_len s
       \<and> mode (presses ks s) = ALERT \<and> mode (alert_cycle s) = ALERT
       \<and> mode (main_loop_iter s) = ALERT \<and> update_lcd_iter r s ks = Returned (s, ks)
       \<and> alert_loop s kss = Waiting (state_of (alert_loop s kss))
       \<and> mode (state_of (alert_loop s kss)) = ALERT
       \<and> (\<exists>s'. alert_loop s (kss @ [ks @ [key_at KB]]) = Returned s' \<and> mode s' = IDLE)
       \<and> (\<exists>s'. alert_loop s (kss @ [ks @ [key_at KD]]) = Returned s' \<and> mode s' = INPUT
             \<and> (\<forall>ks2. mode (presses ks2 s') = INPUT))
       \<and> (mode t = INPUT \<longrightarrow>
            update_lcd_iter r t [] =
              Waiting (render (prompts ! 0)
                        (get_input_begin_split (prompts ! 0) [] (t\<lparr>input_stage := 0\<rparr>)))
          \<and> input_stage (get_input_begin_split (prompts ! 0) [] (t\<lparr>input_stage := 0\<rparr>)) = 0
          \<and> input_str (get_input_begin_split (prompts ! 0) [] (t\<lparr>input_stage := 0\<rparr>)) = []
          \<and> input_len (get_input_begin_split (prompts ! 0) [] (t\<lparr>input_stage := 0\<rparr>)) = 0
          \<and> (is_digit_key k \<and> input_len t < MAX_INPUT \<longrightarrow>
               input_str (get_input_begin_split (prompts ! 0) [key_at k]
                            (t\<lparr>input_stage := 0\<rparr>)) = [key_char k]
             \<and> input_len (get_input_begin_split (prompts ! 0) [key_at k]
                            (t\<lparr>input_stage := 0\<rparr>)) = 0))"
proof -
  have q: "\<forall>ks\<in>set kss. \<forall>k\<in>set ks. k \<noteq> (Col3, 1) \<and> k \<noteq> (Col3, 3)"
    and q': "\<forall>k\<in>set ks. k \<noteq> (Col3, 1) \<and> k \<noteq> (Col3, 3)"
    using assms(2,3) by simp_all
  let ?w = "state_of (alert_loop s kss)"
  note w = alert_loop_quiet[OF q assms(1)]
  have keys: "mode (type_keys [KB] s) = IDLE \<and> mode (type_keys [KD] s) = INPUT"
    using assms(1) by (simp add: mode_press const_defs)
  have others: "mode (presses ks s) = ALERT \<and> mode (alert_cycle s) = ALERT
       \<and> mode (main_loop_iter s) = ALERT \<and> update_lcd_iter r s ks = Returned (s, ks)"
    using assms(1) q'
    by (simp add: mode_presses_quiet main_loop_iter_def Let_def emit_def update_lcd_iter_def
        const_defs)
  have app: "alert_loop s (kss @ kss') = alert_loop ?w kss'" for kss'
    using w alert_loop_append by metis
  have b: "\<exists>s'. alert_loop s (kss @ [ks @ [key_at KB]]) = Returned s' \<and> mode s' = IDLE"
    using alert_loop_last_key[OF q', of ?w "key_at KB"] w by (simp add: app)
  have d: "\<exists>s'. alert_loop s (kss @ [ks @ [key_at KD]]) = Returned s' \<and> mode s' = INPUT
             \<and> (\<forall>ks2. mode (presses ks2 s') = INPUT)"
  proof -
    let ?s' = "press (key_at KD) (presses ks (alert_cycle ?w))"
    have r: "alert_loop s (kss @ [ks @ [key_at KD]]) = Returned ?s'" and m: "mode ?s' = INPUT"
      using alert_loop_last_key[OF q', of ?w "key_at KD"] w by (simp_all add: app)
    have "mode (presses ks2 ?s') = INPUT" for ks2 using m by (rule mode_presses_input)
    then show ?thesis using r m by blast
  qed
  have hd: "type_keys [KD] s =
           s\<lparr>row := 3, mode := INPUT, outs := outs s @ [Queue_call_flash BOUNCE]\<rparr>"
    by (simp add: press_D)
  have hf: "input_stage (type_keys [KD] s) = input_stage s
       \<and> input_str (type_keys [KD] s) = input_str s
       \<and> input_len (type_keys [KD] s) = input_len s"
    by (simp add: press_D)
  have disp: "mode t = INPUT \<longrightarrow>
            update_lcd_iter r t [] =
              Waiting (render (prompts ! 0)
                        (get_input_begin_split (prompts ! 0) [] (t\<lparr>input_stage := 0\<rparr>)))
          \<and> input_stage (get_input_begin_split (prompts ! 0) [] (t\<lparr>input_stage := 0\<rparr>)) = 0
          \<and> input_str (get_input_begin_split (prompts ! 0) [] (t\<lparr>input_stage := 0\<rparr>)) = []
          \<and> input_len (get_input_begin_split (prompts ! 0) [] (t\<lparr>input_stage := 0\<rparr>)) = 0
          \<and> (is_digit_key k \<and> input_len t < MAX_INPUT \<longrightarrow>
               input_str (get_input_begin_split (prompts ! 0) [key_at k]
                            (t\<lparr>input_stage := 0\<rparr>)) = [key_char k]
             \<and> input_len (get_input_begin_split (prompts ! 0) [key_at k]
                            (t\<lparr>input_stage := 0\<rparr>)) = 0)"
    using update_lcd_iter_begin[of t r] begin_no_key[of "prompts ! 0" t]
      begin_digit_between[of k t "prompts ! 0"]
    by blast
  show ?thesis using keys hd hf others w b d disp by blast
qed

lemma alerting_value:
  "alerting = monitoring\<lparr>celcius := 45, fahrenheit := 113, humidity := 50, mode := ALERT,
     outs := [Sensor_read, Lcd_clear, Lcd_print ''Temperature Too'', Lcd_setCursor 6 1,
              Lcd_print ''High'']\<rparr>"
  by (simp add: alerting_def monitor_state_iter_def monitor_body_def alert_def state_of_def
      emit_def update_sensor_def sample_hot_def monitoring_def init_state_def const_defs)

text \<open>The alert raised in the state \<open>monitoring\<close>: three iterations with the keys C
  and 5, then the keys A and B; and the key D, after which the digit 5 falls between
  the two assignments of \<^verbatim>\<open>get_input\<close>.\<close>

theorem alert_exit_witness:
  "mode alerting = ALERT
   \<and> mode (type_keys [KB] alerting) = IDLE \<and> mode (type_keys [KD] alerting) = INPUT
   \<and> input_stage (type_keys [KD] alerting) = - 1
   \<and> mode (state_of (alert_loop alerting [[], [key_at KC, key_at K5], []])) = ALERT
   \<and> mode (state_of (alert_loop alerting [[], [key_at KC, key_at K5], [], [key_at KA, key_at KB]])) = IDLE
   \<and> input_str (get_input_begin_split (prompts ! 0) []
         ((type_keys [KD] alerting)\<lparr>input_stage := 0\<rparr>)) = []
   \<and> input_str (get_input_begin_split (prompts ! 0) [key_at K5]
         ((type_keys [KD] alerting)\<lparr>input_stage := 0\<rparr>)) = ''5''"
proof -
  have a: "mode alerting = ALERT" by (simp add: alerting_value)
  have q: "\<forall>ks\<in>set [[], [key_at KC, key_at K5], []]. \<forall>k\<in>set ks. k \<noteq> key_at KB \<and> k \<noteq> key_at KD"
    by simp
  have q': "\<forall>k\<in>set [key_at KA]. k \<noteq> key_at KB \<and> k \<noteq> key_at KD" by simp
  note t = alert_exit[OF a q q', where r = sample0 and t = "type_keys [KD] alerting" and k = K5]
  have 1: "mode (type_keys [KB] alerting) = IDLE" using t by blast
  have 2: "mode (type_keys [KD] alerting) = INPUT" using t by blast
  have "input_stage (type_keys [KD] alerting) = input_stage alerting" using t by blast
  then have 3: "input_stage (type_keys [KD] alerting) = - 1"
    by (simp add: alerting_value monitoring_def init_state_def)
  have "input_len (type_keys [KD] alerting) = input_len alerting" using t by blast
  then have l: "input_len (type_keys [KD] alerting) < MAX_INPUT"
    by (simp add: alerting_value monitoring_def init_state_def MAX_INPUT_def)
  have 4: "mode (state_of (alert_loop alerting [[], [key_at KC, key_at K5], []])) = ALERT"
    using t by blast
  have "\<exists>s'. alert_loop alerting ([[], [key_at KC, key_at K5], []] @ [[key_at KA] @ [key_at KB]])
          = Returned s' \<and> mode s' = IDLE"
    using t by blast
  then have 5: "mode (state_of (alert_loop alerting
      [[], [key_at KC, key_at K5], [], [key_at KA, key_at KB]])) = IDLE"
    by (auto simp add: state_of_def)
  have 6: "input_str (get_input_begin_split (prompts ! 0) []
         ((type_keys [KD] alerting)\<lparr>input_stage := 0\<rparr>)) = []"
    using t 2 by blast
  have d5: "is_digit_key K5" by simp
  have "input_str (get_input_begin_split (prompts ! 0) [key_at K5]
         ((type_keys [KD] alerting)\<lparr>input_stage := 0\<rparr>)) = [key_char K5]"
    using t 2 l d5 by blast
  then have 7: "input_str (get_input_begin_split (prompts ! 0) [key_at K5]
         ((type_keys [KD] alerting)\<lparr>input_stage := 0\<rparr>)) = ''5''"
    by simp
  show ?thesis by (intro conjI) (rule a 1 2 3 4 5 6 7)+
qed

section \<open>The input session\<close>

lemma press_in_input:
  assumes "mode s = INPUT"
  shows "mode (press k s) = INPUT \<and> unit (press k s) = unit s
       \<and> thresholds (press k s) = thresholds s"
proof (cases k)
  case (Pair c r)
  then show ?thesis using assms
    by (cases c) (auto simp add: press_def isr_defs Let_def thresholds_def emit_def)
qed

lemma render_frame [simp]:
  "mode (render p s) = mode s" "unit (render p s) = unit s"
  "thresholds (render p s) = thresholds s" "input_stage (render p s) = input_stage s"
  "input_str (render p s) = input_str s" "input_len (render p s) = input_len s"
  "temp_min_c (render p s) = temp_min_c s" "temp_max_c (render p s) = temp_max_c s"
  "temp_min_f (render p s) = temp_min_f s" "temp_max_f (render p s) = temp_max_f s"
  "humidity_min (render p s) = humidity_min s" "humidity_max (render p s) = humidity_max s"
  by (simp_all add: render_def print_prompt_def emit_def thresholds_def)

lemma get_input_begin_frame [simp]:
  "mode (get_input_begin p s) = mode s" "unit (get_input_begin p s) = unit s"
  "thresholds (get_input_begin p s) = thresholds s"
  "input_stage (get_input_begin p s) = input_stage s"
  "input_str (get_input_begin p s) = []" "input_len (get_input_begin p s) = 0"
  by (simp_all add: get_input_begin_def get_input_begin_split_def get_input_clear_def get_input_zero_def print_prompt_def emit_def thresholds_def)

lemma get_input_loop_frame:
  assumes "mode s = INPUT" and "get_input_loop p cs s ks = Returned (s', ks')"
  shows "mode s' = INPUT \<and> unit s' = unit s \<and> thresholds s' = thresholds s"
  using assms
proof (induction ks arbitrary: s)
  case Nil
  then show ?case by (simp split: if_splits)
next
  case (Cons k ks)
  show ?case
  proof (cases "input_stage s \<le> cs")
    case True
    let ?s = "press k (render p s)"
    have f: "mode ?s = INPUT \<and> unit ?s = unit s \<and> thresholds ?s = thresholds s"
      using press_in_input[of "render p s" k] Cons.prems(1) by simp
    have "get_input_loop p cs ?s ks = Returned (s', ks')"
      using Cons.prems(2) True by simp
    then show ?thesis using Cons.IH[of ?s] f by simp
  next
    case False
    then show ?thesis using Cons.prems by simp
  qed
qed

lemma get_input_frame:
  assumes "mode s = INPUT" and "get_input p cs s ks = Returned (s', ks')"
  shows "mode s' = INPUT \<and> unit s' = unit s \<and> thresholds s' = thresholds s"
  using get_input_loop_frame[of "get_input_begin p s" p cs ks s' ks'] assms
  by (simp add: get_input_def)

lemma store_input_frame [simp]:
  "mode (store_input cs s) = mode s" "unit (store_input cs s) = unit s"
  by (simp_all add: store_input_def Let_def)

lemma store_input_paired:
  "min_paired (store_input 0 s)" "max_paired (store_input 1 s)"
  "cs \<noteq> 0 \<Longrightarrow> min_paired (store_input cs s) = min_paired s"
  "cs \<noteq> 1 \<Longrightarrow> max_paired (store_input cs s) = max_paired s"
  by (simp_all add: store_input_def min_paired_def max_paired_def Let_def)

lemma paired_thresholds:
  "thresholds s' = thresholds s \<Longrightarrow> unit s' = unit s \<Longrightarrow>
   min_paired s' = min_paired s \<and> max_paired s' = max_paired s"
  by (simp add: thresholds_def min_paired_def max_paired_def)

lemma input_stages_done: "\<not> cs < 4 \<Longrightarrow> input_stages cs s ks = Returned (s, ks)"
  by (subst input_stages.simps) simp

lemma input_stages_step:
  "cs < 4 \<Longrightarrow> input_stages cs s ks =
     (case get_input (prompts ! nat cs) cs s ks of
        Waiting w \<Rightarrow> Waiting w
      | Returned (s1, ks1) \<Rightarrow> input_stages (cs + 1) (store_input cs s1) ks1)"
  by (subst input_stages.simps) simp

lemma input_stages_paired:
  assumes "mode s = INPUT" and "0 \<le> cs"
    and "0 < cs \<longrightarrow> min_paired s" and "1 < cs \<longrightarrow> max_paired s"
    and "input_stages cs s ks = Returned (s', ks')"
  shows "mode s' = INPUT \<and> unit s' = unit s \<and> (cs < 4 \<longrightarrow> min_paired s' \<and> max_paired s')"
  using assms
proof (induction cs s ks rule: input_stages.induct)
  case (1 cs s ks)
  show ?case
  proof (cases "cs < 4")
    case True
    from "1.prems"(5) True obtain s1 ks1 where
      g: "get_input (prompts ! nat cs) cs s ks = Returned (s1, ks1)" and
      r: "input_stages (cs + 1) (store_input cs s1) ks1 = Returned (s', ks')"
      by (auto simp add: input_stages_step split: run.splits)
    note f = get_input_frame[OF "1.prems"(1) g]
    note pt = paired_thresholds[of s1 s]
    let ?t = "store_input cs s1"
    have m: "mode ?t = INPUT" and u: "unit ?t = unit s" using f by simp_all
    have mp: "0 < cs + 1 \<longrightarrow> min_paired ?t"
      using "1.prems"(2,3) f pt by (cases "cs = 0") (simp_all add: store_input_paired)
    have xp: "1 < cs + 1 \<longrightarrow> max_paired ?t"
      using "1.prems"(2,4) f pt by (cases "cs = 1") (simp_all add: store_input_paired)
    have c0: "0 \<le> cs + 1" using "1.prems"(2) by simp
    note ih = "1.IH"[OF True g refl m c0 mp xp r]
    show ?thesis
    proof (cases "cs + 1 < 4")
      case True
      then show ?thesis using ih u by simp
    next
      case False
      then have "s' = ?t" using r by (simp add: input_stages_done)
      moreover have "0 < cs + 1" "1 < cs + 1" using False by simp_all
      ultimately show ?thesis using mp xp m u by simp
    qed
  next
    case False
    then show ?thesis using "1.prems" by (simp add: input_stages_done)
  qed
qed


lemma get_input_loop_done:
  "cs < input_stage s \<Longrightarrow> get_input_loop p cs s ks = Returned (s, ks)"
  by (cases ks) simp_all

lemma get_input_loop_digits:
  assumes "\<forall>k\<in>set ds. is_digit_key k" and "mode s = INPUT" and "input_stage s \<le> cs"
    and "input_len s = int (length (input_str s))"
    and "length (input_str s) + length ds \<le> 9"
  shows "\<exists>s'. get_input_loop p cs s (map key_at ds @ rest) = get_input_loop p cs s' rest
       \<and> input_str s' = input_str s @ map key_char ds
       \<and> input_len s' = int (length (input_str s'))
       \<and> input_stage s' = input_stage s \<and> mode s' = INPUT \<and> unit s' = unit s
       \<and> thresholds s' = thresholds s"
  using assms
proof (induction ds arbitrary: s)
  case Nil
  then show ?case by (intro exI[of _ s]) simp
next
  case (Cons k ds)
  let ?r = "render p s"
  let ?s = "press (key_at k) ?r"
  have dk: "is_digit_key k" and dds: "\<forall>k\<in>set ds. is_digit_key k" using Cons.prems(1) by simp_all
  have lt: "input_len ?r < 9" using Cons.prems(4,5) by simp
  have mr: "mode ?r = INPUT" using Cons.prems(2) by simp
  have p: "?s = ?r\<lparr>row := snd (key_at k), input_str := input_str ?r @ [key_char k],
           input_len := input_len ?r + 1, input_modified := True,
           outs := outs ?r @ [Queue_call_flash BOUNCE]\<rparr>"
    using press_digit[OF dk mr lt] .
  have str: "input_str ?s = input_str s @ [key_char k]"
    and len: "input_len ?s = int (length (input_str ?s))"
    and stg: "input_stage ?s = input_stage s"
    and m: "mode ?s = INPUT" and u: "unit ?s = unit s"
    and th: "thresholds ?s = thresholds s"
    using Cons.prems(2,4) by (simp_all add: p thresholds_def)
  have stg': "input_stage ?s \<le> cs" using stg Cons.prems(3) by simp
  have room: "length (input_str ?s) + length ds \<le> 9" using Cons.prems(5) by (simp add: str)
  from Cons.IH[OF dds m stg' len room] obtain s' where
    "get_input_loop p cs ?s (map key_at ds @ rest) = get_input_loop p cs s' rest"
    "input_str s' = input_str ?s @ map key_char ds"
    "input_len s' = int (length (input_str s'))"
    "input_stage s' = input_stage ?s" "mode s' = INPUT" "unit s' = unit ?s"
    "thresholds s' = thresholds ?s"
    by blast
  then show ?case using Cons.prems(3) str stg u th by auto
qed

lemma press_A:
  assumes "input_stage s \<noteq> - 1"
  shows "press (Col3, 0) s = s\<lparr>row := 0, input_stage := input_stage s + 1,
           outs := outs s @ [Queue_call_flash BOUNCE]\<rparr>"
  using assms by (simp add: press_def isr_c3_def emit_def)

lemma get_input_entry:
  assumes "\<forall>k\<in>set ds. is_digit_key k" and "length ds \<le> 9"
    and "mode s = INPUT" and "input_stage s = cs" and "0 \<le> cs"
  shows "\<exists>s'. get_input p cs s (entry ds @ rest) = Returned (s', rest)
       \<and> input_str s' = map key_char ds \<and> input_len s' = int (length ds)
       \<and> input_stage s' = cs + 1
       \<and> mode s' = INPUT \<and> unit s' = unit s \<and> thresholds s' = thresholds s"
proof -
  let ?b = "get_input_begin p s"
  have b: "mode ?b = INPUT" "input_stage ?b \<le> cs" "input_len ?b = int (length (input_str ?b))"
    "length (input_str ?b) + length ds \<le> 9"
    using assms(2,3,4) by simp_all
  from get_input_loop_digits[OF assms(1) b, of p "key_at KA # rest"] obtain s1 where
    l: "get_input_loop p cs ?b (map key_at ds @ key_at KA # rest)
          = get_input_loop p cs s1 (key_at KA # rest)"
    and f: "input_str s1 = map key_char ds" "input_stage s1 = cs" "mode s1 = INPUT"
      "unit s1 = unit s" "thresholds s1 = thresholds s"
      "input_len s1 = int (length (input_str s1))"
    using assms(4) by auto
  let ?s' = "press (key_at KA) (render p s1)"
  have ne: "input_stage (render p s1) \<noteq> - 1" using f(2) assms(5) by simp
  note pa = press_A[OF ne]
  have f': "input_str ?s' = map key_char ds" "input_stage ?s' = cs + 1" "mode ?s' = INPUT"
      "unit ?s' = unit s" "thresholds ?s' = thresholds s" "input_len ?s' = int (length ds)"
    using f by (simp_all add: pa thresholds_def)
  have "get_input_loop p cs s1 (key_at KA # rest) = Returned (?s', rest)"
    using f(2) f'(2) by (simp add: get_input_loop_done)
  then have "get_input p cs s (entry ds @ rest) = Returned (?s', rest)"
    using l by (simp add: get_input_def entry_def)
  then show ?thesis using f' by blast
qed

lemma store_input_stage [simp]:
  "input_stage (store_input cs s) = input_stage s"
  "input_str (store_input cs s) = input_str s" "input_len (store_input cs s) = input_len s"
  by (simp_all add: store_input_def Let_def)

lemma input_stages_entries:
  assumes "\<forall>k\<in>set d0. is_digit_key k" and "length d0 \<le> 9"
    and "\<forall>k\<in>set d1. is_digit_key k" and "length d1 \<le> 9"
    and "\<forall>k\<in>set d2. is_digit_key k" and "length d2 \<le> 9"
    and "\<forall>k\<in>set d3. is_digit_key k" and "length d3 \<le> 9"
    and "mode s = INPUT" and "input_stage s = 0"
  shows "\<exists>s'. input_stages 0 s (entry d0 @ entry d1 @ entry d2 @ entry d3 @ rest) = Returned (s', rest)
       \<and> mode s' = INPUT \<and> unit s' = unit s
       \<and> thresholds s' = entered (unit s) (map key_char d0) (map key_char d1)
                            (map key_char d2) (map key_char d3)
       \<and> input_str s' = map key_char d3 \<and> input_len s' = int (length d3)"
proof -
  from get_input_entry[OF assms(1,2,9,10), of "prompts ! nat 0" "entry d1 @ entry d2 @ entry d3 @ rest"]
  obtain a where a: "get_input (prompts ! nat 0) 0 s (entry d0 @ entry d1 @ entry d2 @ entry d3 @ rest)
        = Returned (a, entry d1 @ entry d2 @ entry d3 @ rest)"
    "input_str a = map key_char d0" "input_stage a = 1" "mode a = INPUT" "unit a = unit s"
    by auto
  let ?a = "store_input 0 a"
  have a': "mode ?a = INPUT" "input_stage ?a = 1" "(0::int) \<le> 1" using a by simp_all
  from get_input_entry[OF assms(3,4) a', of "prompts ! nat 1" "entry d2 @ entry d3 @ rest"]
  obtain b where b: "get_input (prompts ! nat 1) 1 ?a (entry d1 @ entry d2 @ entry d3 @ rest)
        = Returned (b, entry d2 @ entry d3 @ rest)"
    "input_str b = map key_char d1" "input_stage b = 2" "mode b = INPUT" "unit b = unit ?a"
    "thresholds b = thresholds ?a"
    by auto
  let ?b = "store_input 1 b"
  have b': "mode ?b = INPUT" "input_stage ?b = 2" "(0::int) \<le> 2" using b by simp_all
  from get_input_entry[OF assms(5,6) b', of "prompts ! nat 2" "entry d3 @ rest"]
  obtain c where c: "get_input (prompts ! nat 2) 2 ?b (entry d2 @ entry d3 @ rest)
        = Returned (c, entry d3 @ rest)"
    "input_str c = map key_char d2" "input_stage c = 3" "mode c = INPUT" "unit c = unit ?b"
    "thresholds c = thresholds ?b"
    by auto
  let ?c = "store_input 2 c"
  have c': "mode ?c = INPUT" "input_stage ?c = 3" "(0::int) \<le> 3" using c by simp_all
  from get_input_entry[OF assms(7,8) c', of "prompts ! nat 3" rest]
  obtain d where d: "get_input (prompts ! nat 3) 3 ?c (entry d3 @ rest) = Returned (d, rest)"
    "input_str d = map key_char d3" "input_stage d = 4" "mode d = INPUT" "unit d = unit ?c"
    "thresholds d = thresholds ?c" "input_len d = int (length d3)"
    by auto
  let ?d = "store_input 3 d"
  have run: "input_stages 0 s (entry d0 @ entry d1 @ entry d2 @ entry d3 @ rest) = Returned (?d, rest)"
    using a(1) b(1) c(1) d(1) by (simp add: input_stages_step input_stages_done)
  have u: "unit a = unit s" "unit b = unit s" "unit c = unit s" "unit d = unit s"
    using a(5) b(5) c(5) d(5) by simp_all
  have th: "thresholds ?d = entered (unit s) (map key_char d0) (map key_char d1)
                            (map key_char d2) (map key_char d3)"
    using a(2) b(2,6) c(2,6) d(2,6) u
    by (simp add: thresholds_def store_input_def entered_def Let_def CELCIUS_def)
  show ?thesis using run th d(2,4,7) u(4) by simp
qed


lemma validate_input_iff:
  "validate_input s \<longleftrightarrow>
     (0 \<le> temp_min_c s \<and> temp_min_c s \<le> temp_max_c s \<and> temp_max_c s \<le> 50)
   \<and> (32 \<le> temp_min_f s \<and> temp_min_f s \<le> temp_max_f s \<and> temp_max_f s \<le> 122)
   \<and> (20 \<le> humidity_min s \<and> humidity_min s \<le> humidity_max s \<and> humidity_max s \<le> 95)"
  by (auto simp add: validate_input_def const_defs Let_def)

lemma validate_input_thresholds:
  "thresholds s' = thresholds s \<Longrightarrow> validate_input s' = validate_input s"
  by (simp add: validate_input_iff thresholds_def)

lemma input_finish_fields:
  "thresholds (input_finish s) = thresholds s" "unit (input_finish s) = unit s"
  "input_stage (input_finish s) = - 1"
  "mode (input_finish s) = (if validate_input s then MONITOR else mode s)"
  "outs (input_finish s) = (if validate_input s then outs s else outs s @ invalid_notice)"
  "input_str (input_finish s) = input_str s" "input_len (input_finish s) = input_len s"
  by (simp_all add: input_finish_def Let_def thresholds_def emit_def invalid_notice_def
      validate_input_thresholds[of "s\<lparr>input_stage := - 1\<rparr>" s])

lemma validate_input_finish: "validate_input (input_finish s) = validate_input s"
  by (rule validate_input_thresholds) (rule input_finish_fields)

lemma lcd_input_returned:
  assumes "lcd_input s ks = Returned (s', ks')"
  shows "\<exists>s1. input_stages 0 (s\<lparr>input_stage := 0\<rparr>) ks = Returned (s1, ks') \<and> s' = input_finish s1"
  using assms by (auto simp add: lcd_input_def split: run.splits)

lemma lcd_input_general:
  assumes "mode s = INPUT" and "lcd_input s ks = Returned (s', ks')"
  shows "unit s' = unit s \<and> min_paired s' \<and> max_paired s' \<and> input_stage s' = - 1
       \<and> mode s' = (if validate_input s' then MONITOR else INPUT)
       \<and> (\<not> validate_input s' \<longrightarrow> (\<exists>pre. outs s' = pre @ invalid_notice))
       \<and> (\<exists>s1. input_stages 0 (s\<lparr>input_stage := 0\<rparr>) ks = Returned (s1, ks')
                \<and> thresholds s' = thresholds s1)"
proof -
  from lcd_input_returned[OF assms(2)] obtain s1 where
    st: "input_stages 0 (s\<lparr>input_stage := 0\<rparr>) ks = Returned (s1, ks')" and
    fin: "s' = input_finish s1"
    by blast
  have m0: "mode (s\<lparr>input_stage := 0\<rparr>) = INPUT" using assms(1) by simp
  have p: "mode s1 = INPUT \<and> unit s1 = unit s \<and> min_paired s1 \<and> max_paired s1"
    using input_stages_paired[OF m0 _ _ _ st] by simp
  have pf: "min_paired s' = min_paired s1 \<and> max_paired s' = max_paired s1"
    unfolding fin by (rule paired_thresholds) (rule input_finish_fields)+
  have v: "validate_input s' = validate_input s1" unfolding fin by (rule validate_input_finish)
  show ?thesis
    using p pf v st by (auto simp add: fin input_finish_fields)
qed

lemma lcd_input_entries:
  assumes "\<forall>k\<in>set d0. is_digit_key k" and "length d0 \<le> 9"
    and "\<forall>k\<in>set d1. is_digit_key k" and "length d1 \<le> 9"
    and "\<forall>k\<in>set d2. is_digit_key k" and "length d2 \<le> 9"
    and "\<forall>k\<in>set d3. is_digit_key k" and "length d3 \<le> 9"
    and "mode s = INPUT"
  shows "\<exists>s'. lcd_input s (session_keys d0 d1 d2 d3 @ rest) = Returned (s', rest)
       \<and> thresholds s' = entered (unit s) (map key_char d0) (map key_char d1)
                            (map key_char d2) (map key_char d3)
       \<and> input_str s' = map key_char d3 \<and> input_len s' = int (length d3)"
proof -
  have m0: "mode (s\<lparr>input_stage := 0\<rparr>) = INPUT" "input_stage (s\<lparr>input_stage := 0\<rparr>) = 0"
    using assms(9) by simp_all
  from input_stages_entries[OF assms(1-8) m0, of rest] obtain s1 where
    "input_stages 0 (s\<lparr>input_stage := 0\<rparr>) (entry d0 @ entry d1 @ entry d2 @ entry d3 @ rest)
       = Returned (s1, rest)"
    "thresholds s1 = entered (unit s) (map key_char d0) (map key_char d1)
                            (map key_char d2) (map key_char d3)"
    "input_str s1 = map key_char d3" "input_len s1 = int (length d3)"
    by auto
  then show ?thesis
    by (simp add: lcd_input_def session_keys_def input_finish_fields)
qed

text \<open>
  Claim C5, as amended. When the four stages of an INPUT session have completed,
  the mode advances to MONITOR if and only if the three chains hold of the bounds
  the session stored: 0 \<open>\<le>\<close> temp_min_c \<open>\<le>\<close> temp_max_c \<open>\<le>\<close> 50,
  32 \<open>\<le>\<close> temp_min_f \<open>\<le>\<close> temp_max_f \<open>\<le>\<close> 122 and
  20 \<open>\<le>\<close> humidity_min \<open>\<le>\<close> humidity_max \<open>\<le>\<close> 95. Otherwise the mode is still
  INPUT. The new bounds are stored in either case: for four entries of digits they
  are the values entered, converted to the other unit, whether or not the chains
  hold. With the mode not MONITOR the monitor thread does not compare readings
  with them.
\<close>

theorem validation_decides:
  assumes "mode s = INPUT" and "lcd_input s ks = Returned (s', ks')"
  shows "(mode s' = MONITOR \<longleftrightarrow>
            (0 \<le> temp_min_c s' \<and> temp_min_c s' \<le> temp_max_c s' \<and> temp_max_c s' \<le> 50)
          \<and> (32 \<le> temp_min_f s' \<and> temp_min_f s' \<le> temp_max_f s' \<and> temp_max_f s' \<le> 122)
          \<and> (20 \<le> humidity_min s' \<and> humidity_min s' \<le> humidity_max s' \<and> humidity_max s' \<le> 95))
       \<and> (mode s' = MONITOR \<or> mode s' = INPUT)
       \<and> (\<exists>s1. input_stages 0 (s\<lparr>input_stage := 0\<rparr>) ks = Returned (s1, ks')
                \<and> thresholds s' = thresholds s1)
       \<and> (mode s' \<noteq> MONITOR \<longrightarrow>
            monitor_state_iter r kss s' = Returned (emit [Sleep 1000] s'))
       \<and> ((\<forall>k\<in>set d0. is_digit_key k) \<and> length d0 \<le> 9
          \<and> (\<forall>k\<in>set d1. is_digit_key k) \<and> length d1 \<le> 9
          \<and> (\<forall>k\<in>set d2. is_digit_key k) \<and> length d2 \<le> 9
          \<and> (\<forall>k\<in>set d3. is_digit_key k) \<and> length d3 \<le> 9
          \<and> ks = session_keys d0 d1 d2 d3 @ ks' \<longrightarrow>
          thresholds s' = entered (unit s) (map key_char d0) (map key_char d1)
                            (map key_char d2) (map key_char d3))"
proof -
  note g = lcd_input_general[OF assms]
  have v: "mode s' = MONITOR \<longleftrightarrow> validate_input s'"
    using g by (simp add: const_defs)
  have e: "thresholds s' = entered (unit s) (map key_char d0) (map key_char d1)
                            (map key_char d2) (map key_char d3)"
    if "\<forall>k\<in>set d0. is_digit_key k" "length d0 \<le> 9" "\<forall>k\<in>set d1. is_digit_key k" "length d1 \<le> 9"
       "\<forall>k\<in>set d2. is_digit_key k" "length d2 \<le> 9" "\<forall>k\<in>set d3. is_digit_key k" "length d3 \<le> 9"
       "ks = session_keys d0 d1 d2 d3 @ ks'"
    using lcd_input_entries[OF that(1-8) assms(1), of ks'] assms(2) that(9) by auto
  show ?thesis using v g e by (simp add: validate_input_iff monitor_state_iter_def)
qed


lemma input_mode_value:
  "input_mode = init_state\<lparr>row := 3, mode := INPUT, outs := [Queue_call_flash 1000]\<rparr>"
  by (simp add: input_mode_def press_def isr_c3_def emit_def init_state_def const_defs)

lemma input_mode_fields:
  "mode input_mode = INPUT" "unit input_mode = CELCIUS"
  "thresholds input_mode = (0, 50, 32, 122, 20, 95)"
  by (simp_all add: input_mode_value thresholds_def init_state_def const_defs)

lemma atoi_examples:
  "atoi ''10'' = 10" "atoi ''40'' = 40" "atoi ''30'' = 30" "atoi ''80'' = 80"
  by (simp_all add: atoi_def is_space_def digit_val_def)

lemma toFahrenheit_examples: "toFahrenheit 10 = 50" "toFahrenheit 40 = 104"
  by (simp_all add: toFahrenheit_def d1_8_value fl_eval)

lemma entered_examples:
  "entered CELCIUS ''10'' ''40'' ''30'' ''80'' = (10, 40, 50, 104, 30, 80)"
  "entered CELCIUS ''40'' ''10'' ''30'' ''80'' = (40, 10, 104, 50, 30, 80)"
  "entered CELCIUS ''10'' ''40'' ''10'' ''80'' = (10, 40, 50, 104, 10, 80)"
  by (simp_all add: entered_def atoi_examples toFahrenheit_examples)

lemma session_valid_run:
  "lcd_input input_mode keys_10_40_30_80 = Returned (session_valid, [])
   \<and> thresholds session_valid = (10, 40, 50, 104, 30, 80)
   \<and> input_str session_valid = ''80'' \<and> input_len session_valid = 2"
proof -
  have "\<exists>s'. lcd_input input_mode (session_keys [K1, K0] [K4, K0] [K3, K0] [K8, K0] @ [])
          = Returned (s', [])
       \<and> thresholds s' = entered (unit input_mode) (map key_char [K1, K0]) (map key_char [K4, K0])
                            (map key_char [K3, K0]) (map key_char [K8, K0])
       \<and> input_str s' = map key_char [K8, K0] \<and> input_len s' = int (length [K8, K0])"
    by (rule lcd_input_entries) (simp_all add: input_mode_fields)
  then obtain s' where
    r: "lcd_input input_mode keys_10_40_30_80 = Returned (s', [])" and
    t: "thresholds s' = entered CELCIUS ''10'' ''40'' ''30'' ''80''" and
    b: "input_str s' = ''80''" "input_len s' = 2"
    by (auto simp add: keys_10_40_30_80_def input_mode_fields)
  have "session_valid = s'" by (simp add: session_valid_def r state_of_input_def)
  then show ?thesis using r t b by (simp add: entered_examples)
qed

lemma session_invalid_run:
  "lcd_input input_mode keys_40_10_30_80 = Returned (session_invalid, [])
   \<and> thresholds session_invalid = (40, 10, 104, 50, 30, 80)"
proof -
  have "\<exists>s'. lcd_input input_mode (session_keys [K4, K0] [K1, K0] [K3, K0] [K8, K0] @ [])
          = Returned (s', [])
       \<and> thresholds s' = entered (unit input_mode) (map key_char [K4, K0]) (map key_char [K1, K0])
                            (map key_char [K3, K0]) (map key_char [K8, K0])"
    using lcd_input_entries[of "[K4, K0]" "[K1, K0]" "[K3, K0]" "[K8, K0]" input_mode "[]"]
    by (auto simp add: input_mode_fields)
  then obtain s' where
    r: "lcd_input input_mode keys_40_10_30_80 = Returned (s', [])" and
    t: "thresholds s' = entered CELCIUS ''40'' ''10'' ''30'' ''80''"
    by (auto simp add: keys_40_10_30_80_def input_mode_fields)
  have "session_invalid = s'" by (simp add: session_invalid_def r state_of_input_def)
  then show ?thesis using r t by (simp add: entered_examples)
qed

lemma session_invalid_fails: "\<not> validate_input session_invalid"
  using session_invalid_run by (simp add: validate_input_iff thresholds_def)

lemma session_valid_passes: "validate_input session_valid"
  using session_valid_run by (simp add: validate_input_iff thresholds_def)

text \<open>The sessions 10, 40, 30, 80 and 40, 10, 30, 80 in Celsius.\<close>

theorem validation_decides_witness:
  "mode input_mode = INPUT
   \<and> lcd_input input_mode keys_10_40_30_80 = Returned (session_valid, [])
   \<and> thresholds session_valid = entered CELCIUS ''10'' ''40'' ''30'' ''80''
   \<and> entered CELCIUS ''10'' ''40'' ''30'' ''80'' = (10, 40, 50, 104, 30, 80)
   \<and> mode session_valid = MONITOR
   \<and> lcd_input input_mode keys_40_10_30_80 = Returned (session_invalid, [])
   \<and> thresholds session_invalid = entered CELCIUS ''40'' ''10'' ''30'' ''80''
   \<and> entered CELCIUS ''40'' ''10'' ''30'' ''80'' = (40, 10, 104, 50, 30, 80)
   \<and> mode session_invalid = INPUT"
proof -
  have m: "mode input_mode = INPUT" by (rule input_mode_fields)
  have rv: "lcd_input input_mode keys_10_40_30_80 = Returned (session_valid, [])"
    using session_valid_run by simp
  have ri: "lcd_input input_mode keys_40_10_30_80 = Returned (session_invalid, [])"
    using session_invalid_run by simp
  note tv = validation_decides[OF m rv, where ?d0.0 = "[K1, K0]" and ?d1.0 = "[K4, K0]"
      and ?d2.0 = "[K3, K0]" and ?d3.0 = "[K8, K0]"]
  note ti = validation_decides[OF m ri, where ?d0.0 = "[K4, K0]" and ?d1.0 = "[K1, K0]"
      and ?d2.0 = "[K3, K0]" and ?d3.0 = "[K8, K0]"]
  have "thresholds session_valid = entered (unit input_mode) (map key_char [K1, K0])
      (map key_char [K4, K0]) (map key_char [K3, K0]) (map key_char [K8, K0])"
    using tv by (simp add: keys_10_40_30_80_def)
  then have ev: "thresholds session_valid = entered CELCIUS ''10'' ''40'' ''30'' ''80''"
    by (simp add: input_mode_fields)
  have "thresholds session_invalid = entered (unit input_mode) (map key_char [K4, K0])
      (map key_char [K1, K0]) (map key_char [K3, K0]) (map key_char [K8, K0])"
    using ti by (simp add: keys_40_10_30_80_def)
  then have ei: "thresholds session_invalid = entered CELCIUS ''40'' ''10'' ''30'' ''80''"
    by (simp add: input_mode_fields)
  have mv: "mode session_valid = MONITOR"
    using tv ev by (simp add: entered_examples thresholds_def)
  have mi: "mode session_invalid = INPUT"
    using ti ei by (auto simp add: entered_examples thresholds_def)
  show ?thesis by (intro conjI) (rule m rv ev mv ri ei mi entered_examples)+
qed

text \<open>
  Claim C1, as amended. When an INPUT session completes its four stages and
  validation fails, the bounds are those the stages of this session stored (for
  four entries of digits: the values entered, converted to the other unit, whatever
  the bounds were before), the notice "Invalid Input", "Please Try Again" is the
  last thing shown, followed by a sleep of 3000 ms, \<open>input_stage\<close> is reset, and
  the mode is still INPUT, so that the display thread starts a new session.
\<close>

theorem invalid_session:
  assumes "mode s = INPUT" and "lcd_input s ks = Returned (s', ks')"
    and "\<not> validate_input s'"
  shows "mode s' = INPUT \<and> input_stage s' = - 1
       \<and> (\<exists>pre. outs s' = pre @ [Lcd_clear, Lcd_print ''Invalid Input'', Lcd_setCursor 0 1,
                                   Lcd_print ''Please Try Again'', Sleep 3000])
       \<and> (\<exists>s1. input_stages 0 (s\<lparr>input_stage := 0\<rparr>) ks = Returned (s1, ks')
                \<and> thresholds s' = thresholds s1)
       \<and> ((\<forall>k\<in>set d0. is_digit_key k) \<and> length d0 \<le> 9
          \<and> (\<forall>k\<in>set d1. is_digit_key k) \<and> length d1 \<le> 9
          \<and> (\<forall>k\<in>set d2. is_digit_key k) \<and> length d2 \<le> 9
          \<and> (\<forall>k\<in>set d3. is_digit_key k) \<and> length d3 \<le> 9
          \<and> ks = session_keys d0 d1 d2 d3 @ ks' \<longrightarrow>
          thresholds s' = entered (unit s) (map key_char d0) (map key_char d1)
                            (map key_char d2) (map key_char d3))"
proof -
  note g = lcd_input_general[OF assms(1,2)]
  have e: "thresholds s' = entered (unit s) (map key_char d0) (map key_char d1)
                            (map key_char d2) (map key_char d3)"
    if "\<forall>k\<in>set d0. is_digit_key k" "length d0 \<le> 9" "\<forall>k\<in>set d1. is_digit_key k" "length d1 \<le> 9"
       "\<forall>k\<in>set d2. is_digit_key k" "length d2 \<le> 9" "\<forall>k\<in>set d3. is_digit_key k" "length d3 \<le> 9"
       "ks = session_keys d0 d1 d2 d3 @ ks'"
    using lcd_input_entries[OF that(1-8) assms(1), of ks'] assms(2) that(9) by auto
  show ?thesis using g assms(3) e by (simp add: invalid_notice_def)
qed

text \<open>The session 40, 10, 30, 80 in Celsius.\<close>

theorem invalid_session_witness:
  "mode input_mode = INPUT
   \<and> lcd_input input_mode keys_40_10_30_80 = Returned (session_invalid, [])
   \<and> \<not> validate_input session_invalid
   \<and> mode session_invalid = INPUT \<and> input_stage session_invalid = - 1
   \<and> thresholds session_invalid = entered CELCIUS ''40'' ''10'' ''30'' ''80''
   \<and> entered CELCIUS ''40'' ''10'' ''30'' ''80'' = (40, 10, 104, 50, 30, 80)"
proof -
  have m: "mode input_mode = INPUT" by (rule input_mode_fields)
  have ri: "lcd_input input_mode keys_40_10_30_80 = Returned (session_invalid, [])"
    using session_invalid_run by simp
  note t = invalid_session[OF m ri session_invalid_fails,
      of "[K4, K0]" "[K1, K0]" "[K3, K0]" "[K8, K0]"]
  have mi: "mode session_invalid = INPUT" and st: "input_stage session_invalid = - 1"
    using t by blast+
  have "thresholds session_invalid = entered (unit input_mode) (map key_char [K4, K0])
      (map key_char [K1, K0]) (map key_char [K3, K0]) (map key_char [K8, K0])"
    using t by (simp add: keys_40_10_30_80_def)
  then have ti: "thresholds session_invalid = entered CELCIUS ''40'' ''10'' ''30'' ''80''"
    by (simp add: input_mode_fields)
  show ?thesis by (intro conjI) (rule m ri session_invalid_fails mi st ti entered_examples)+
qed

text \<open>
  Claim C1 as stated fails for the session 40, 10, 30, 80 entered in Celsius after
  the key D in the initial state: validation fails, yet the bounds are no longer
  0, 50, 32, 122, 20, 95 but 40, 10, 104, 50, 30, 80, and the mode is INPUT, not
  IDLE.
\<close>

theorem invalid_session_counterexample:
  "mode input_mode = INPUT
   \<and> lcd_input input_mode keys_40_10_30_80 = Returned (session_invalid, [])
   \<and> \<not> validate_input session_invalid
   \<and> thresholds input_mode = (0, 50, 32, 122, 20, 95)
   \<and> thresholds session_invalid = (40, 10, 104, 50, 30, 80)
   \<and> thresholds session_invalid \<noteq> thresholds input_mode
   \<and> mode session_invalid = INPUT \<and> mode session_invalid \<noteq> IDLE"
proof -
  have m: "mode input_mode = INPUT" by (rule input_mode_fields)
  have ri: "lcd_input input_mode keys_40_10_30_80 = Returned (session_invalid, [])"
    and ti: "thresholds session_invalid = (40, 10, 104, 50, 30, 80)"
    using session_invalid_run by simp_all
  have mi: "mode session_invalid = INPUT"
    using lcd_input_general[OF m ri] session_invalid_fails by simp
  show ?thesis
    using m ri ti mi session_invalid_fails by (simp add: input_mode_fields const_defs)
qed

text \<open>
  Claim C8. A stage that stores a temperature bound stores the value parsed from
  the buffer in the selected unit and, at once, its conversion in the other unit.
  So after a completed session, and after every stage, the two representations of
  a bound agree up to the rounding of the conversion: in Celsius the Fahrenheit
  bound is \<open>toFahrenheit\<close> of the Celsius bound, in Fahrenheit the Celsius bound is
  \<open>toCelcius\<close> of the Fahrenheit bound. On the supported range this rounding is
  less than 0.00001 degrees for \<open>toFahrenheit\<close> and rounding down to a whole degree
  for \<open>toCelcius\<close>.
\<close>

theorem paired_bounds:
  assumes "mode s = INPUT" and "lcd_input s ks = Returned (s', ks')"
  shows "unit s' = unit s
       \<and> (unit s = CELCIUS \<longrightarrow> temp_min_f s' = toFahrenheit (temp_min_c s')
                              \<and> temp_max_f s' = toFahrenheit (temp_max_c s'))
       \<and> (unit s = FAHRENHEIT \<longrightarrow> temp_min_c s' = toCelcius (temp_min_f s')
                                 \<and> temp_max_c s' = toCelcius (temp_max_f s'))
       \<and> (unit t = CELCIUS \<longrightarrow>
            temp_min_c (store_input 0 t) = atoi (input_str t)
          \<and> temp_min_f (store_input 0 t) = toFahrenheit (atoi (input_str t))
          \<and> temp_max_c (store_input 1 t) = atoi (input_str t)
          \<and> temp_max_f (store_input 1 t) = toFahrenheit (atoi (input_str t)))
       \<and> (unit t = FAHRENHEIT \<longrightarrow>
            temp_min_f (store_input 0 t) = float_of_int (atoi (input_str t))
          \<and> temp_min_c (store_input 0 t) = toCelcius (float_of_int (atoi (input_str t)))
          \<and> temp_max_f (store_input 1 t) = float_of_int (atoi (input_str t))
          \<and> temp_max_c (store_input 1 t) = toCelcius (float_of_int (atoi (input_str t))))
       \<and> (0 \<le> c \<and> c \<le> 50 \<longrightarrow>
            \<bar>toFahrenheit c - (of_int c * 9 / 5 + 32)\<bar> < 1 / 100000)
       \<and> (32 \<le> f \<and> f \<le> 122 \<longrightarrow>
            toCelcius (float_of_int f) = \<lfloor>(of_int f - 32) * 5 / 9 :: rat\<rfloor>)"
proof -
  note g = lcd_input_general[OF assms]
  have a: "unit s' = unit s" and b: "min_paired s'" and c: "max_paired s'" using g by simp_all
  have 1: "unit s = CELCIUS \<longrightarrow> temp_min_f s' = toFahrenheit (temp_min_c s')
                              \<and> temp_max_f s' = toFahrenheit (temp_max_c s')"
    using a b c by (simp add: min_paired_def max_paired_def)
  have 2: "unit s = FAHRENHEIT \<longrightarrow> temp_min_c s' = toCelcius (temp_min_f s')
                                 \<and> temp_max_c s' = toCelcius (temp_max_f s')"
    using a b c by (simp add: min_paired_def max_paired_def const_defs)
  have 3: "unit t = CELCIUS \<longrightarrow>
            temp_min_c (store_input 0 t) = atoi (input_str t)
          \<and> temp_min_f (store_input 0 t) = toFahrenheit (atoi (input_str t))
          \<and> temp_max_c (store_input 1 t) = atoi (input_str t)
          \<and> temp_max_f (store_input 1 t) = toFahrenheit (atoi (input_str t))"
    by (simp add: store_input_def Let_def)
  have 4: "unit t = FAHRENHEIT \<longrightarrow>
            temp_min_f (store_input 0 t) = float_of_int (atoi (input_str t))
          \<and> temp_min_c (store_input 0 t) = toCelcius (float_of_int (atoi (input_str t)))
          \<and> temp_max_f (store_input 1 t) = float_of_int (atoi (input_str t))
          \<and> temp_max_c (store_input 1 t) = toCelcius (float_of_int (atoi (input_str t)))"
    by (simp add: store_input_def Let_def const_defs)
  have 5: "0 \<le> c \<and> c \<le> 50 \<longrightarrow>
            \<bar>toFahrenheit c - (of_int c * 9 / 5 + 32)\<bar> < 1 / 100000"
    using toFahrenheit_close[of c] by blast
  have 6: "32 \<le> f \<and> f \<le> 122 \<longrightarrow>
            toCelcius (float_of_int f) = \<lfloor>(of_int f - 32) * 5 / 9 :: rat\<rfloor>"
    using toCelcius_floor[of f] by blast
  show ?thesis by (intro conjI) (rule a 1 2 3 4 5 6)+
qed

text \<open>Entering 10 and 40 in Celsius gives the Fahrenheit bounds \<open>toFahrenheit 10\<close> and
  \<open>toFahrenheit 40\<close>, which are 50 and 104.\<close>

theorem paired_bounds_witness:
  "mode input_mode = INPUT \<and> unit input_mode = CELCIUS
   \<and> lcd_input input_mode keys_10_40_30_80 = Returned (session_valid, [])
   \<and> temp_min_c session_valid = 10 \<and> temp_max_c session_valid = 40
   \<and> temp_min_f session_valid = toFahrenheit 10 \<and> temp_max_f session_valid = toFahrenheit 40
   \<and> toFahrenheit 10 = 50 \<and> toFahrenheit 40 = 104
   \<and> temp_min_f (store_input 0 session_valid) = toFahrenheit (atoi ''80'')
   \<and> \<bar>toFahrenheit 37 - (of_int 37 * 9 / 5 + 32)\<bar> < 1 / 100000
   \<and> toCelcius (float_of_int 99) = \<lfloor>(of_int 99 - 32) * 5 / 9 :: rat\<rfloor>"
proof -
  have m: "mode input_mode = INPUT" and u: "unit input_mode = CELCIUS"
    by (rule input_mode_fields)+
  have rv: "lcd_input input_mode keys_10_40_30_80 = Returned (session_valid, [])"
    and tv: "thresholds session_valid = (10, 40, 50, 104, 30, 80)"
    using session_valid_run by simp_all
  have c: "temp_min_c session_valid = 10" "temp_max_c session_valid = 40"
    using tv by (simp_all add: thresholds_def)
  have "temp_min_f session_valid = toFahrenheit (temp_min_c session_valid)
      \<and> temp_max_f session_valid = toFahrenheit (temp_max_c session_valid)"
    using paired_bounds[OF m rv] u by blast
  then have f: "temp_min_f session_valid = toFahrenheit 10" "temp_max_f session_valid = toFahrenheit 40"
    using c by simp_all
  note t = paired_bounds[OF m rv, of session_valid 37 99]
  have us: "unit session_valid = CELCIUS" using t u by simp
  have st: "temp_min_f (store_input 0 session_valid) = toFahrenheit (atoi ''80'')"
    using t us session_valid_run by simp
  have cl: "\<bar>toFahrenheit 37 - (of_int 37 * 9 / 5 + 32)\<bar> < 1 / 100000"
    using t by simp
  have fl: "toCelcius (float_of_int 99) = \<lfloor>(of_int 99 - 32) * 5 / 9 :: rat\<rfloor>"
    using t by simp
  show ?thesis by (intro conjI) (rule m u rv c f toFahrenheit_examples st cl fl)+
qed


lemma session_dry_run:
  "lcd_input input_mode keys_10_40_10_80 = Returned (session_dry, [])
   \<and> thresholds session_dry = (10, 40, 50, 104, 10, 80)"
proof -
  have "\<exists>s'. lcd_input input_mode (session_keys [K1, K0] [K4, K0] [K1, K0] [K8, K0] @ [])
          = Returned (s', [])
       \<and> thresholds s' = entered (unit input_mode) (map key_char [K1, K0]) (map key_char [K4, K0])
                            (map key_char [K1, K0]) (map key_char [K8, K0])"
    using lcd_input_entries[of "[K1, K0]" "[K4, K0]" "[K1, K0]" "[K8, K0]" input_mode "[]"]
    by (auto simp add: input_mode_fields)
  then obtain s' where
    r: "lcd_input input_mode keys_10_40_10_80 = Returned (s', [])" and
    t: "thresholds s' = entered CELCIUS ''10'' ''40'' ''10'' ''80''"
    by (auto simp add: keys_10_40_10_80_def input_mode_fields)
  have "session_dry = s'" by (simp add: session_dry_def r state_of_input_def)
  then show ?thesis using r t by (simp add: entered_examples)
qed

text \<open>
  Claim C5 as stated fails for the session 10, 40, 10, 80 entered in Celsius after
  the key D in the initial state. The third chain does not hold, since the lower
  humidity bound 10 is below 20, and the mode does not advance to MONITOR; yet the
  new configuration has replaced the old one: the bounds are no longer
  0, 50, 32, 122, 20, 95 but 10, 40, 50, 104, 10, 80.
\<close>

theorem validation_decides_counterexample:
  "mode input_mode = INPUT
   \<and> lcd_input input_mode keys_10_40_10_80 = Returned (session_dry, [])
   \<and> thresholds input_mode = (0, 50, 32, 122, 20, 95)
   \<and> thresholds session_dry = (10, 40, 50, 104, 10, 80)
   \<and> thresholds session_dry \<noteq> thresholds input_mode
   \<and> \<not> 20 \<le> humidity_min session_dry
   \<and> \<not> validate_input session_dry
   \<and> mode session_dry \<noteq> MONITOR"
proof -
  have m: "mode input_mode = INPUT" by (rule input_mode_fields)
  have r: "lcd_input input_mode keys_10_40_10_80 = Returned (session_dry, [])"
    and t: "thresholds session_dry = (10, 40, 50, 104, 10, 80)"
    using session_dry_run by simp_all
  have h: "\<not> 20 \<le> humidity_min session_dry" using t by (simp add: thresholds_def)
  have v: "\<not> validate_input session_dry" using h by (simp add: validate_input_iff)
  have mm: "mode session_dry \<noteq> MONITOR"
    using lcd_input_general[OF m r] v by (simp add: const_defs)
  have ne: "thresholds session_dry \<noteq> thresholds input_mode"
    by (simp add: t input_mode_fields)
  show ?thesis
    by (intro conjI) (rule m r input_mode_fields t ne h v mm)+
qed

lemma session_valid_fields:
  "mode session_valid = MONITOR" "unit session_valid = CELCIUS"
  "input_stage session_valid = - 1"
proof -
  have m: "mode input_mode = INPUT" by (rule input_mode_fields)
  have r: "lcd_input input_mode keys_10_40_30_80 = Returned (session_valid, [])"
    using session_valid_run by simp
  note g = lcd_input_general[OF m r]
  show "mode session_valid = MONITOR" using g session_valid_passes by simp
  show "unit session_valid = CELCIUS" using g by (simp add: input_mode_fields)
  show "input_stage session_valid = - 1" using g by simp
qed

lemma alert_after_session_fields:
  "mode alert_after_session = ALERT" "input_stage alert_after_session = - 1"
  "input_str alert_after_session = ''80''" "input_len alert_after_session = 2"
proof -
  have t: "temp_min_c session_valid = 10" "temp_max_c session_valid = 40"
    using session_valid_run by (simp_all add: thresholds_def)
  have b: "input_str session_valid = ''80''" "input_len session_valid = 2"
    using session_valid_run by simp_all
  have eq: "alert_after_session =
      (emit [Lcd_clear, Lcd_print ''Temperature Too'', Lcd_setCursor 6 1, Lcd_print ''High'']
         (update_sensor sample_hot session_valid))\<lparr>mode := ALERT\<rparr>"
    using t session_valid_fields
    by (simp add: alert_after_session_def monitor_state_iter_def monitor_body_def Let_def
        alert_def state_of_def update_sensor_def emit_def sample_hot_def const_defs)
  show "mode alert_after_session = ALERT" "input_stage alert_after_session = - 1"
    "input_str alert_after_session = ''80''" "input_len alert_after_session = 2"
    unfolding eq using b session_valid_fields by (simp_all add: update_sensor_def emit_def)
qed

text \<open>
  Claim C7 as stated fails for the alert that the reading of 45 degrees raises after
  the session 10, 40, 30, 80. The key D sets the mode to INPUT, but the input
  session is not a new, empty one: \<open>input_stage\<close> is still \<open>- 1\<close>, the buffer still
  holds "80" with length 2, and the digit 5 pressed next gives "805".
\<close>

theorem alert_exit_counterexample:
  "mode alert_after_session = ALERT
   \<and> mode (type_keys [KD] alert_after_session) = INPUT
   \<and> input_stage (type_keys [KD] alert_after_session) = - 1
   \<and> input_str (type_keys [KD] alert_after_session) = ''80''
   \<and> input_len (type_keys [KD] alert_after_session) = 2
   \<and> input_str (type_keys [KD, K5] alert_after_session) = ''805''"
proof -
  note f = alert_after_session_fields
  have 1: "mode (type_keys [KD] alert_after_session) = INPUT"
    by (simp add: press_D)
  have 2: "input_stage (type_keys [KD] alert_after_session) = - 1"
    using f by (simp add: press_D)
  have 3: "input_str (type_keys [KD] alert_after_session) = ''80''"
    using f by (simp add: press_D)
  have 4: "input_len (type_keys [KD] alert_after_session) = 2"
    using f by (simp add: press_D)
  have lt: "input_len (type_keys [KD] alert_after_session) < 9" using 4 by simp
  have d5: "is_digit_key K5" by simp
  have "type_keys [KD, K5] alert_after_session
      = press (key_at K5) (type_keys [KD] alert_after_session)"
    by (simp add: type_keys_def)
  then have 5: "input_str (type_keys [KD, K5] alert_after_session) = ''805''"
    using press_digit[OF d5 1 lt] 3 by simp
  show ?thesis by (intro conjI) (rule f(1) 1 2 3 4 5)+
qed

end
